theory Spec2Isabelle
  imports Complex_Main "HOL-Library.Char_ord" "HOL-Library.List_Lexorder"
    "HOL-Library.Product_Lexorder" "HOL-Library.AList"
begin

section \<open>Python values the endpoints of \<open>src/api/main.py\<close> work with\<close>

text \<open>
  The endpoints build SQL text with f-strings and hand it to the storage engine, which the
  source configures as SQLite (\<open>DATABASE_URL\<close> defaults to \<open>sqlite:///./analytics.db\<close>).
  Two pieces of Python therefore matter for what a statement means: how a \<open>date\<close> is
  written into the text (\<open>str(date)\<close>, the ISO form \<open>YYYY-MM-DD\<close>) and how an \<open>int\<close> is
  (\<open>str(int)\<close>). \<open>Float\<close> columns are modelled as exact reals; \<open>Integer\<close> columns
  hold mathematical integers, and the 64 bits of the engine show where it adds them up.
\<close>

definition digit :: "nat \<Rightarrow> char" where
  "digit n = ''0123456789'' ! (n mod 10)"

text \<open>\<open>str(n)\<close> for a non-negative \<open>int\<close>.\<close>

fun str_nat :: "nat \<Rightarrow> string" where
  "str_nat n = (if n < 10 then [digit n] else str_nat (n div 10) @ [digit (n mod 10)])"

declare str_nat.simps [simp del]

text \<open>\<open>'%0wd' % n\<close>: the decimal digits, padded with zeros on the left to width \<open>w\<close>.\<close>

definition zfill :: "nat \<Rightarrow> string \<Rightarrow> string" where
  "zfill w s = replicate (w - length s) (CHR ''0'') @ s"

record date =
  year :: nat
  month :: nat
  day :: nat

record datetime =
  on_date :: date
  hour :: nat
  minute :: nat
  second :: nat
  microsecond :: nat

definition is_leap :: "nat \<Rightarrow> bool" where
  "is_leap y = (y mod 4 = 0 \<and> (y mod 100 \<noteq> 0 \<or> y mod 400 = 0))"

definition days_in_month :: "nat \<Rightarrow> nat \<Rightarrow> nat" where
  "days_in_month y m =
     (if m = 2 \<and> is_leap y then 29
      else [31, 28, 31, 30, 31, 30, 31, 31, 30, 31, 30, 31] ! (m - 1))"

text \<open>The dates Python's \<open>date\<close> type holds: years 1 to 9999, a month, a day of that month.\<close>

definition valid_date :: "date \<Rightarrow> bool" where
  "valid_date d =
     (1 \<le> year d \<and> year d \<le> 9999 \<and> 1 \<le> month d \<and> month d \<le> 12 \<and>
      1 \<le> day d \<and> day d \<le> days_in_month (year d) (month d))"

text \<open>Python orders dates as the triples (year, month, day).\<close>

definition date_less :: "date \<Rightarrow> date \<Rightarrow> bool" where
  "date_less a b =
     (year a < year b \<or>
      year a = year b \<and> (month a < month b \<or> month a = month b \<and> day a < day b))"

definition date_le :: "date \<Rightarrow> date \<Rightarrow> bool" where
  "date_le a b = (date_less a b \<or> a = b)"

text \<open>\<open>str(d)\<close> of a \<open>date\<close>, which is \<open>d.isoformat()\<close>: \<open>'%04d-%02d-%02d'\<close>.\<close>

definition isoformat :: "date \<Rightarrow> string" where
  "isoformat d =
     zfill 4 (str_nat (year d)) @ ''-'' @ zfill 2 (str_nat (month d)) @ ''-'' @
     zfill 2 (str_nat (day d))"

text \<open>
  What a \<open>DateTime\<close> column holds in SQLite: SQLAlchemy stores the value as the text
  \<open>YYYY-MM-DD HH:MM:SS.ffffff\<close>, and SQLite compares it with a quoted literal as text,
  byte by byte.
\<close>

definition sqlite_datetime :: "datetime \<Rightarrow> string" where
  "sqlite_datetime t =
     isoformat (on_date t) @ '' '' @ zfill 2 (str_nat (hour t)) @ '':'' @
     zfill 2 (str_nat (minute t)) @ '':'' @ zfill 2 (str_nat (second t)) @ ''.'' @
     zfill 6 (str_nat (microsecond t))"

datatype exn = OperationalError | OverflowError | ZeroDivisionError

text \<open>
  \<open>d - timedelta(days=n)\<close>: \<open>n\<close> steps back in the calendar. Python raises
  \<open>OverflowError\<close> when the result would lie before 0001-01-01.
\<close>

definition yesterday :: "date \<Rightarrow> exn + date" where
  "yesterday d =
     (if 1 < day d then Inr (d\<lparr>day := day d - 1\<rparr>)
      else if 1 < month d then
        Inr (d\<lparr>month := month d - 1, day := days_in_month (year d) (month d - 1)\<rparr>)
      else if 1 < year d then Inr (d\<lparr>year := year d - 1, month := 12, day := 31\<rparr>)
      else Inl OverflowError)"

fun minus_days :: "date \<Rightarrow> nat \<Rightarrow> exn + date" where
  "minus_days d 0 = Inr d"
| "minus_days d (Suc n) = (case yesterday d of Inl e \<Rightarrow> Inl e | Inr p \<Rightarrow> minus_days p n)"

section \<open>The stored tables\<close>

text \<open>
  The two ORM classes of \<open>main.py\<close>. The primary key \<open>id\<close> is written \<open>row_id\<close> and
  \<open>metrics_id\<close>; the customer identifier of \<open>CustomerMetrics\<close> is \<open>metrics_customer_id\<close>.
  Every column holds a value of its declared type.
\<close>

record SalesTransaction =
  row_id :: int
  transaction_id :: string
  customer_id :: string
  product_id :: string
  product_name :: string
  category :: string
  quantity :: int
  unit_price :: real
  total_amount :: real
  transaction_date :: datetime
  region :: string
  channel :: string
  created_at :: datetime

record CustomerMetrics =
  metrics_id :: int
  metrics_customer_id :: string
  total_orders :: int
  total_spent :: real
  avg_order_value :: real
  last_purchase_date :: datetime
  customer_lifetime_value :: real
  is_active :: bool
  acquisition_date :: datetime
  updated_at :: datetime

record database =
  sales_transactions :: "SalesTransaction list"
  customer_metrics :: "CustomerMetrics list"

section \<open>The storage layer\<close>

text \<open>
  A request sends its statements to the storage layer one after the other. Any of them can
  raise (the connection is lost, the file is locked): \<open>fl k\<close> says that the \<open>k\<close>-th
  statement of the request does.
\<close>

type_synonym faults = "nat \<Rightarrow> bool"

definition storage_call :: "faults \<Rightarrow> nat \<Rightarrow> 'a \<Rightarrow> exn + 'a" where
  "storage_call fl k result = (if fl k then Inl OperationalError else Inr result)"

text \<open>
  What running a piece of the endpoint does: it returns a value, it raises, or it has sent
  the engine a statement that this development gives no meaning to.
\<close>

datatype 'a outcome = Returns 'a | Raises exn | Unmodelled

definition and_then :: "'a outcome \<Rightarrow> ('a \<Rightarrow> 'b outcome) \<Rightarrow> 'b outcome" where
  "and_then m f = (case m of Returns x \<Rightarrow> f x | Raises e \<Rightarrow> Raises e | Unmodelled \<Rightarrow> Unmodelled)"

text \<open>
  The filters are written into the statement between single quotes
  (\<open>f"region = '{region}'"\<close>). The text between the quotes is read back as the same
  string when it holds no quote, no backslash, no colon (SQLAlchemy's \<open>text()\<close> reads
  \<open>:name\<close> as a bind parameter) and no NUL. With any other text the statement the engine
  sees is not the one the source spells out.
\<close>

definition inert :: "string \<Rightarrow> bool" where
  "inert s = list_all (\<lambda>c. c \<notin> set [CHR 0x27, CHR 0x5C, CHR '':'', CHR 0x00]) s"

datatype column = Col_transaction_date | Col_region | Col_channel | Col_category

datatype comparison = Ge | Le | Eq

text \<open>One condition of a \<open>WHERE\<close> clause: \<open>column op 'literal'\<close>.\<close>

type_synonym condition = "column \<times> comparison \<times> string"

text \<open>The text SQLite holds for a column of a \<open>sales_transactions\<close> row.\<close>

definition column_text :: "column \<Rightarrow> SalesTransaction \<Rightarrow> string" where
  "column_text c r =
     (case c of
        Col_transaction_date \<Rightarrow> sqlite_datetime (transaction_date r)
      | Col_region \<Rightarrow> region r
      | Col_channel \<Rightarrow> channel r
      | Col_category \<Rightarrow> category r)"

text \<open>SQLite compares two texts byte by byte; a text that extends another is the greater.\<close>

definition holds :: "condition \<Rightarrow> SalesTransaction \<Rightarrow> bool" where
  "holds cnd r =
     (case cnd of (c, cmp, lit) \<Rightarrow>
        (case cmp of
           Ge \<Rightarrow> lit \<le> column_text c r
         | Le \<Rightarrow> column_text c r \<le> lit
         | Eq \<Rightarrow> column_text c r = lit))"

text \<open>\<open>FROM sales_transactions WHERE c1 AND c2 AND ...\<close>\<close>

definition selected :: "condition list \<Rightarrow> SalesTransaction list \<Rightarrow> SalesTransaction list" where
  "selected conds rows = filter (\<lambda>r. list_all (\<lambda>c. holds c r) conds) rows"

text \<open>
  An apostrophe in a filter ends the literal early. When the literals of the statement,
  from the first one that is not inert, hold only letters, digits, spaces and apostrophes,
  nothing but a string literal can take up a quote; an odd number of apostrophes then leaves
  a literal open at the end of the statement, and SQLite rejects it (\<open>region = 'O'Brien'\<close>).
\<close>

definition quotes :: "string \<Rightarrow> nat" where
  "quotes s = length (filter (\<lambda>c. c = CHR 0x27) s)"

definition wordy :: "char \<Rightarrow> bool" where
  "wordy c =
     (c \<in> set (''abcdefghijklmnopqrstuvwxyzABCDEFGHIJKLMNOPQRSTUVWXYZ0123456789 '' @ [CHR 0x27]))"

definition rejected :: "string list \<Rightarrow> bool" where
  "rejected lits =
     (odd (sum_list (map quotes lits)) \<and> list_all (list_all wordy) (dropWhile inert lits))"

text \<open>
  \<open>db.execute(text(...))\<close> of the \<open>k\<close>-th statement, whose answer would be \<open>result\<close>.
  A statement with inert literals is run, and the storage layer answers or raises; a
  rejected one raises \<open>OperationalError\<close>; what the engine makes of any other text is
  left open.
\<close>

definition execute :: "faults \<Rightarrow> nat \<Rightarrow> condition list \<Rightarrow> 'a \<Rightarrow> 'a outcome" where
  "execute fl k conds result =
     (if list_all (\<lambda>cnd. inert (snd (snd cnd))) conds
      then (case storage_call fl k result of Inl e \<Rightarrow> Raises e | Inr v \<Rightarrow> Returns v)
      else if rejected (map (\<lambda>cnd. snd (snd cnd)) conds) then Raises OperationalError
      else Unmodelled)"

text \<open>
  SQL aggregates. \<open>SUM\<close> and \<open>AVG\<close> over no rows are \<open>NULL\<close> (Python's \<open>None\<close>);
  within a group there is always a row.
\<close>

definition sql_sum :: "real list \<Rightarrow> real option" where
  "sql_sum xs = (if xs = [] then None else Some (sum_list xs))"

definition sql_avg :: "real list \<Rightarrow> real option" where
  "sql_avg xs = (if xs = [] then None else Some (sum_list xs / real (length xs)))"

definition sql_count :: "'a list \<Rightarrow> int" where
  "sql_count xs = int (length xs)"

text \<open>
  An \<open>INTEGER\<close> of SQLite has 64 bits. \<open>SUM\<close> over an \<open>Integer\<close> column adds the
  values of the rows, in the order of the table, in 64 bits; once a partial sum leaves the
  range the statement fails with \<open>integer overflow\<close>, which reaches Python as
  \<open>OperationalError\<close>.
\<close>

definition int64 :: "int \<Rightarrow> bool" where
  "int64 i = (- (2 ^ 63) \<le> i \<and> i < 2 ^ 63)"

fun sum_int64 :: "int \<Rightarrow> int list \<Rightarrow> exn + int" where
  "sum_int64 so_far [] = Inr so_far"
| "sum_int64 so_far (x # xs) =
     (if int64 (so_far + x) then sum_int64 (so_far + x) xs else Inl OperationalError)"

definition sql_sum_int :: "int list \<Rightarrow> exn + int" where
  "sql_sum_int xs = sum_int64 0 xs"

text \<open>The rows of a statement that computes one row per group: all of them, or the error
  of the first group whose aggregate fails.\<close>

fun all_groups :: "(exn + 'a) list \<Rightarrow> exn + 'a list" where
  "all_groups [] = Inr []"
| "all_groups (g # gs) =
     (case g of
        Inl e \<Rightarrow> Inl e
      | Inr v \<Rightarrow> (case all_groups gs of Inl e \<Rightarrow> Inl e | Inr vs \<Rightarrow> Inr (v # vs)))"

text \<open>What a statement that can fail while it runs hands to Python.\<close>

definition raise_or_return :: "exn + 'a \<Rightarrow> 'a outcome" where
  "raise_or_return answer = (case answer of Inl e \<Rightarrow> Raises e | Inr v \<Rightarrow> Returns v)"

text \<open>
  \<open>GROUP BY\<close>: one group per distinct key. SQLite sorts the rows by the key to form the
  groups, so the groups come out in ascending order of the key (texts compared byte by
  byte, the terms of the key from left to right), each with its rows in the order of the
  table. \<open>ORDER BY\<close> then sorts the groups and keeps that order among equal sort keys.
\<close>

definition group_by :: "('r \<Rightarrow> 'k::linorder) \<Rightarrow> 'r list \<Rightarrow> ('k \<times> 'r list) list" where
  "group_by key rows =
     map (\<lambda>k. (k, filter (\<lambda>r. key r = k) rows)) (sort (remdups (map key rows)))"

definition order_by_desc :: "('a \<Rightarrow> real) \<Rightarrow> 'a list \<Rightarrow> 'a list" where
  "order_by_desc f xs = sort_key (\<lambda>x. - f x) xs"

definition limit :: "nat \<Rightarrow> 'a list \<Rightarrow> 'a list" where
  "limit n xs = take n xs"

section \<open>Python on the results\<close>

text \<open>\<open>float(x or 0)\<close> and \<open>int(x or 0)\<close>: \<open>None\<close> and zero are falsy.\<close>

definition float_or_0 :: "real option \<Rightarrow> real" where
  "float_or_0 x = (case x of None \<Rightarrow> 0 | Some v \<Rightarrow> if v = 0 then 0 else v)"

definition int_or_0 :: "int \<Rightarrow> int" where
  "int_or_0 x = (if x = 0 then 0 else x)"

text \<open>\<open>str(i)\<close> for an \<open>int\<close>.\<close>

definition str_int :: "int \<Rightarrow> string" where
  "str_int i = (if i < 0 then ''-'' @ str_nat (nat (- i)) else str_nat (nat i))"

text \<open>\<open>a / b\<close> on two \<open>int\<close>s.\<close>

definition truediv :: "int \<Rightarrow> int \<Rightarrow> exn + real" where
  "truediv a b = (if b = 0 then Inl ZeroDivisionError else Inr (real_of_int a / real_of_int b))"

text \<open>
  A \<open>dict\<close> keeps its keys in insertion order; \<open>d[k] = v\<close> is \<open>AList.update\<close>. The loops
  \<open>for row in ...: d[row.key] = float(row.revenue)\<close> are \<open>dict_of_rows\<close>.
\<close>

definition dict_of_rows :: "(string \<times> real) list \<Rightarrow> (string \<times> real) list" where
  "dict_of_rows rows = fold (\<lambda>row d. AList.update (fst row) (snd row) d) rows []"

text \<open>
  \<open>max(d, key=d.get)\<close> and \<open>min(d, key=d.get)\<close> on a non-empty \<open>dict\<close>: the first key,
  in insertion order, whose value is the largest (smallest).
\<close>

fun max_key :: "(string \<times> real) list \<Rightarrow> string option" where
  "max_key [] = None"
| "max_key (p # ps) =
     Some (fst (fold (\<lambda>q best. if snd best < snd q then q else best) ps p))"

fun min_key :: "(string \<times> real) list \<Rightarrow> string option" where
  "min_key [] = None"
| "min_key (p # ps) =
     Some (fst (fold (\<lambda>q best. if snd q < snd best then q else best) ps p))"

text \<open>
  What the caller gets: the response model, or the \<open>HTTPException\<close> the handler raises,
  with its status code and detail.
\<close>

datatype 'a reply = Response 'a | HTTPException nat string | Not_modelled

text \<open>
  \<open>try: ... except Exception as e: raise HTTPException(status_code=500,
  detail="Internal server error")\<close>
\<close>

definition except_500 :: "'a outcome \<Rightarrow> 'a reply" where
  "except_500 m =
     (case m of
        Returns r \<Rightarrow> Response r
      | Raises e \<Rightarrow> HTTPException 500 ''Internal server error''
      | Unmodelled \<Rightarrow> Not_modelled)"

section \<open>\<open>GET /health\<close>\<close>

record HealthResponse =
  status :: string
  timestamp :: datetime
  database_status :: string
  environment :: string

text \<open>
  \<open>utcnow\<close> is the clock's reading and \<open>env\<close> the value of \<open>ENVIRONMENT\<close>, if set.
  The statement is the constant \<open>SELECT 1\<close>; the table contents take no part.
\<close>

definition health_check :: "datetime \<Rightarrow> string option \<Rightarrow> faults \<Rightarrow> database \<Rightarrow> HealthResponse reply" where
  "health_check utcnow env fl db =
     (let db_status = (case storage_call fl 0 () of Inr u \<Rightarrow> ''healthy'' | Inl e \<Rightarrow> ''unhealthy'')
      in Response
          \<lparr>status = (if db_status = ''healthy'' then ''healthy'' else ''unhealthy''),
           timestamp = utcnow,
           database_status = db_status,
           environment = (case env of None \<Rightarrow> ''development'' | Some v \<Rightarrow> v)\<rparr>)"

section \<open>\<open>GET /api/v1/analytics/sales\<close>\<close>

record top_selling_product =
  sold_product_name :: string
  sold_total_quantity :: int
  sold_total_revenue :: real

record SalesMetricsResponse =
  total_revenue :: real
  total_transactions :: int
  avg_transaction_value :: real
  top_selling_products :: "top_selling_product list"
  revenue_by_region :: "(string \<times> real) list"
  revenue_by_channel :: "(string \<times> real) list"

text \<open>
  Lines 165 to 168: \<open>end_date\<close> defaults to \<open>date.today()\<close>, \<open>start_date\<close> to
  \<open>end_date - timedelta(days=30)\<close>.
\<close>

definition date_window :: "date \<Rightarrow> date option \<Rightarrow> date option \<Rightarrow> exn + (date \<times> date)" where
  "date_window today start_date end_date =
     (let e = (case end_date of None \<Rightarrow> today | Some d \<Rightarrow> d)
      in case start_date of
           Some s \<Rightarrow> Inr (s, e)
         | None \<Rightarrow> (case minus_days e 30 of Inl x \<Rightarrow> Inl x | Inr s \<Rightarrow> Inr (s, e)))"

text \<open>\<open>if region:\<close> and \<open>if channel:\<close> skip \<open>None\<close> and the empty string.\<close>

definition optional_condition :: "column \<Rightarrow> string option \<Rightarrow> condition list" where
  "optional_condition c v =
     (case v of None \<Rightarrow> [] | Some s \<Rightarrow> if s = [] then [] else [(c, Eq, s)])"

definition where_clause :: "date \<Rightarrow> date \<Rightarrow> string option \<Rightarrow> string option \<Rightarrow> condition list" where
  "where_clause start_date end_date region_param channel_param =
     [(Col_transaction_date, Ge, isoformat start_date),
      (Col_transaction_date, Le, isoformat end_date)]
     @ optional_condition Col_region region_param
     @ optional_condition Col_channel channel_param"

text \<open>
  \<open>SELECT SUM(total_amount), COUNT( * ), AVG(total_amount) FROM sales_transactions WHERE ...\<close>
\<close>

definition revenue_query :: "SalesTransaction list \<Rightarrow> real option \<times> int \<times> real option" where
  "revenue_query rows =
     (sql_sum (map total_amount rows), sql_count rows, sql_avg (map total_amount rows))"

text \<open>
  \<open>SELECT product_name, SUM(quantity), SUM(total_amount) ... GROUP BY product_name,
  product_id ORDER BY total_revenue DESC LIMIT 10\<close>
\<close>

definition product_key :: "SalesTransaction \<Rightarrow> string \<times> string" where
  "product_key r = (product_name r, product_id r)"

definition product_totals :: "(string \<times> string) \<times> SalesTransaction list \<Rightarrow> exn + top_selling_product" where
  "product_totals g =
     (case sql_sum_int (map quantity (snd g)) of
        Inl e \<Rightarrow> Inl e
      | Inr total_quantity \<Rightarrow>
          Inr \<lparr>sold_product_name = fst (fst g),
               sold_total_quantity = total_quantity,
               sold_total_revenue = sum_list (map total_amount (snd g))\<rparr>)"

definition top_products_query :: "SalesTransaction list \<Rightarrow> exn + top_selling_product list" where
  "top_products_query rows =
     (case all_groups (map product_totals (group_by product_key rows)) of
        Inl e \<Rightarrow> Inl e
      | Inr totals \<Rightarrow> Inr (limit 10 (order_by_desc sold_total_revenue totals)))"

text \<open>\<open>SELECT region, SUM(total_amount) ... GROUP BY region\<close>, and the same by channel.\<close>

definition revenue_by :: "(SalesTransaction \<Rightarrow> string) \<Rightarrow> SalesTransaction list \<Rightarrow> (string \<times> real) list" where
  "revenue_by col rows =
     map (\<lambda>g. (fst g, sum_list (map total_amount (snd g)))) (group_by col rows)"

definition sales_analytics :: "date \<Rightarrow> date option \<Rightarrow> date option \<Rightarrow> string option \<Rightarrow> string option \<Rightarrow> faults \<Rightarrow> database \<Rightarrow> SalesMetricsResponse outcome" where
  "sales_analytics today start_date end_date region_param channel_param fl db =
     (case date_window today start_date end_date of
        Inl e \<Rightarrow> Raises e
      | Inr (s, e) \<Rightarrow>
          (let conds = where_clause s e region_param channel_param;
               rows = selected conds (sales_transactions db)
           in and_then (execute fl 0 conds (revenue_query rows)) (\<lambda>result.
              and_then (execute fl 1 conds (top_products_query rows)) (\<lambda>answer.
              and_then (raise_or_return answer) (\<lambda>top_products.
              and_then (execute fl 2 conds (revenue_by region rows)) (\<lambda>region_rows.
              and_then (execute fl 3 conds (revenue_by channel rows)) (\<lambda>channel_rows.
              Returns
                \<lparr>total_revenue = float_or_0 (fst result),
                 total_transactions = int_or_0 (fst (snd result)),
                 avg_transaction_value = float_or_0 (snd (snd result)),
                 top_selling_products = top_products,
                 revenue_by_region = dict_of_rows region_rows,
                 revenue_by_channel = dict_of_rows channel_rows\<rparr>)))))))"

definition get_sales_analytics :: "date \<Rightarrow> date option \<Rightarrow> date option \<Rightarrow> string option \<Rightarrow> string option \<Rightarrow> faults \<Rightarrow> database \<Rightarrow> SalesMetricsResponse reply" where
  "get_sales_analytics today start_date end_date region_param channel_param fl db =
     except_500 (sales_analytics today start_date end_date region_param channel_param fl db)"

section \<open>\<open>GET /api/v1/analytics/customers\<close>\<close>

record top_customer =
  top_customer_id :: string
  top_total_spent :: real
  top_total_orders :: int
  top_customer_lifetime_value :: real

record CustomerAnalyticsResponse =
  total_customers :: int
  active_customers :: int
  avg_customer_lifetime_value :: real
  customer_retention_rate :: real
  top_customers :: "top_customer list"

text \<open>
  \<open>SELECT customer_id, total_spent, total_orders, customer_lifetime_value FROM
  customer_metrics ORDER BY customer_lifetime_value DESC LIMIT 10\<close>
\<close>

definition top_customers_query :: "CustomerMetrics list \<Rightarrow> top_customer list" where
  "top_customers_query rows =
     map (\<lambda>r. \<lparr>top_customer_id = metrics_customer_id r,
               top_total_spent = total_spent r,
               top_total_orders = total_orders r,
               top_customer_lifetime_value = customer_lifetime_value r\<rparr>)
       (limit 10 (order_by_desc customer_lifetime_value rows))"

text \<open>
  \<open>retention_rate = (active_customers / total_customers * 100) if total_customers > 0
  else 0\<close>
\<close>

definition retention_rate :: "int \<Rightarrow> int \<Rightarrow> exn + real" where
  "retention_rate n_active n_total =
     (if 0 < n_total then (case truediv n_active n_total of Inl e \<Rightarrow> Inl e | Inr q \<Rightarrow> Inr (q * 100))
      else Inr 0)"

definition customer_analytics :: "date option \<Rightarrow> date option \<Rightarrow> faults \<Rightarrow> database \<Rightarrow> CustomerAnalyticsResponse outcome" where
  "customer_analytics start_date end_date fl db =
     (let rows = customer_metrics db
      in and_then (execute fl 0 [] (sql_count rows)) (\<lambda>n_total.
         and_then (execute fl 1 [] (sql_count (filter is_active rows))) (\<lambda>n_active.
         and_then (execute fl 2 [] (sql_avg (map customer_lifetime_value rows))) (\<lambda>avg_clv_result.
         and_then (case retention_rate n_active n_total of Inl e \<Rightarrow> Raises e | Inr v \<Rightarrow> Returns v) (\<lambda>rate.
         and_then (execute fl 3 [] (top_customers_query rows)) (\<lambda>top.
         Returns
           \<lparr>total_customers = n_total,
            active_customers = n_active,
            avg_customer_lifetime_value = float_or_0 avg_clv_result,
            customer_retention_rate = rate,
            top_customers = top\<rparr>))))))"

definition get_customer_analytics :: "date option \<Rightarrow> date option \<Rightarrow> faults \<Rightarrow> database \<Rightarrow> CustomerAnalyticsResponse reply" where
  "get_customer_analytics start_date end_date fl db =
     except_500 (customer_analytics start_date end_date fl db)"

section \<open>\<open>GET /api/v1/analytics/products\<close>\<close>

record top_performing_product =
  perf_product_name :: string
  perf_category :: string
  perf_total_sold :: int
  perf_total_revenue :: real
  perf_avg_price :: real

record inventory =
  total_categories :: nat
  most_profitable_category :: "string option"
  least_profitable_category :: "string option"

record ProductPerformanceResponse =
  total_products :: int
  top_performing_products :: "top_performing_product list"
  category_performance :: "(string \<times> real) list"
  inventory_insights :: inventory

text \<open>\<open>SELECT COUNT(DISTINCT product_id) FROM sales_transactions [WHERE category = '...']\<close>\<close>

definition total_products_query :: "SalesTransaction list \<Rightarrow> int" where
  "total_products_query rows = int (length (remdups (map product_id rows)))"

text \<open>
  \<open>SELECT product_name, category, SUM(quantity), SUM(total_amount), AVG(unit_price) ...
  GROUP BY product_id, product_name, category ORDER BY total_revenue DESC LIMIT 10\<close>
\<close>

definition performance_key :: "SalesTransaction \<Rightarrow> string \<times> string \<times> string" where
  "performance_key r = (product_id r, product_name r, category r)"

definition performance_totals :: "(string \<times> string \<times> string) \<times> SalesTransaction list \<Rightarrow> exn + top_performing_product" where
  "performance_totals g =
     (case sql_sum_int (map quantity (snd g)) of
        Inl e \<Rightarrow> Inl e
      | Inr total_sold \<Rightarrow>
          Inr \<lparr>perf_product_name = fst (snd (fst g)),
               perf_category = snd (snd (fst g)),
               perf_total_sold = total_sold,
               perf_total_revenue = sum_list (map total_amount (snd g)),
               perf_avg_price = sum_list (map unit_price (snd g)) / real (length (snd g))\<rparr>)"

definition top_performing_query :: "SalesTransaction list \<Rightarrow> exn + top_performing_product list" where
  "top_performing_query rows =
     (case all_groups (map performance_totals (group_by performance_key rows)) of
        Inl e \<Rightarrow> Inl e
      | Inr totals \<Rightarrow> Inr (limit 10 (order_by_desc perf_total_revenue totals)))"

text \<open>
  \<open>SELECT category, SUM(total_amount) as revenue FROM sales_transactions GROUP BY category
  ORDER BY revenue DESC\<close>: no \<open>WHERE\<close> clause. Here \<open>GROUP BY\<close> and \<open>ORDER BY\<close>
  have one term each, and SQLite then forms the groups in the direction of the \<open>ORDER BY\<close>:
  the categories come out in descending order of their names, and the sort by revenue keeps
  that order among equal revenues.
\<close>

definition category_query :: "SalesTransaction list \<Rightarrow> (string \<times> real) list" where
  "category_query rows = order_by_desc snd (rev (revenue_by category rows))"

definition product_analytics :: "string option \<Rightarrow> faults \<Rightarrow> database \<Rightarrow> ProductPerformanceResponse outcome" where
  "product_analytics category_param fl db =
     (let conds = optional_condition Col_category category_param;
          rows = selected conds (sales_transactions db)
      in and_then (execute fl 0 conds (total_products_query rows)) (\<lambda>n_products.
         and_then (execute fl 1 conds (top_performing_query rows)) (\<lambda>answer.
         and_then (raise_or_return answer) (\<lambda>top_products.
         and_then (execute fl 2 [] (category_query (sales_transactions db))) (\<lambda>category_rows.
         (let performance = dict_of_rows category_rows
          in Returns
               \<lparr>total_products = int_or_0 n_products,
                top_performing_products = top_products,
                category_performance = performance,
                inventory_insights =
                  \<lparr>total_categories = length performance,
                   most_profitable_category = max_key performance,
                   least_profitable_category = min_key performance\<rparr>\<rparr>))))))"

definition get_product_analytics :: "string option \<Rightarrow> faults \<Rightarrow> database \<Rightarrow> ProductPerformanceResponse reply" where
  "get_product_analytics category_param fl db =
     except_500 (product_analytics category_param fl db)"

section \<open>\<open>POST /api/v1/data/seed\<close>\<close>

record seed_message =
  message :: string

text \<open>
  The endpoint returns its answer and the database it leaves behind. The body of the
  source holds no insert: the data generation is a comment.
\<close>

definition seed_sample_data :: "faults \<Rightarrow> database \<Rightarrow> seed_message reply \<times> database" where
  "seed_sample_data fl db =
     (case storage_call fl 0 (sql_count (sales_transactions db)) of
        Inl e \<Rightarrow> (HTTPException 500 ''Internal server error'', db)
      | Inr existing_count \<Rightarrow>
          if 0 < existing_count
          then (Response \<lparr>message = ''Database already contains '' @ str_int existing_count @ '' transactions''\<rparr>, db)
          else (Response \<lparr>message = ''Sample data seeding endpoint - implement based on business requirements''\<rparr>, db))"

section \<open>Requests covered\<close>

text \<open>A filter parameter that is omitted, or whose text is inert between the quotes.\<close>

definition plain :: "string option \<Rightarrow> bool" where
  "plain v = (case v of None \<Rightarrow> True | Some s \<Rightarrow> inert s)"

text \<open>What the parameter asks of a column: nothing when omitted or empty, equality otherwise.\<close>

definition matches :: "string option \<Rightarrow> string \<Rightarrow> bool" where
  "matches v x = (case v of None \<Rightarrow> True | Some s \<Rightarrow> s = [] \<or> x = s)"

section \<open>The filtered set in the words of the specification\<close>

text \<open>
  The specification has a row in the filtered set when its \<open>transaction_date\<close> lies in
  \<open>[start_date, end_date]\<close>, both ends included, and, when a region or a channel
  parameter is present, its region or channel is an exact match. This definition follows
  those words, not the source; it is what the answers of the endpoint are compared with.
\<close>

definition specified_filter :: "date \<Rightarrow> date \<Rightarrow> string option \<Rightarrow> string option \<Rightarrow> SalesTransaction \<Rightarrow> bool" where
  "specified_filter start_date end_date region_param channel_param r =
     (date_le start_date (on_date (transaction_date r)) \<and>
      date_le (on_date (transaction_date r)) end_date \<and>
      (case region_param of None \<Rightarrow> True | Some v \<Rightarrow> region r = v) \<and>
      (case channel_param of None \<Rightarrow> True | Some v \<Rightarrow> channel r = v))"

definition specified_rows :: "date \<Rightarrow> date \<Rightarrow> string option \<Rightarrow> string option \<Rightarrow> database \<Rightarrow> SalesTransaction list" where
  "specified_rows start_date end_date region_param channel_param db =
     filter (specified_filter start_date end_date region_param channel_param)
       (sales_transactions db)"

section \<open>A small database to run the endpoints on\<close>

definition january :: "nat \<Rightarrow> date" where
  "january n = \<lparr>year = 2024, month = 1, day = n\<rparr>"

definition february :: "nat \<Rightarrow> date" where
  "february n = \<lparr>year = 2024, month = 2, day = n\<rparr>"

definition at_hour :: "date \<Rightarrow> nat \<Rightarrow> datetime" where
  "at_hour d h = \<lparr>on_date = d, hour = h, minute = 0, second = 0, microsecond = 0\<rparr>"

definition sale :: "int \<Rightarrow> string \<Rightarrow> string \<Rightarrow> int \<Rightarrow> real \<Rightarrow> datetime \<Rightarrow> string \<Rightarrow> string \<Rightarrow> SalesTransaction" where
  "sale i pid name q amount t reg chan =
     \<lparr>row_id = i, transaction_id = ''T'' @ str_int i, customer_id = ''C1'', product_id = pid,
      product_name = name, category = ''Electronics'', quantity = q,
      unit_price = amount / real_of_int q, total_amount = amount, transaction_date = t,
      region = reg, channel = chan, created_at = t\<rparr>"

definition example_sales :: "SalesTransaction list" where
  "example_sales =
     [sale 1 ''P1'' ''Widget'' 2 100 (at_hour (january 10) 9) ''US'' ''online'',
      sale 2 ''P2'' ''Gadget'' 1 50 (at_hour (january 20) 14) ''US'' ''online'',
      sale 3 ''P1'' ''Widget'' 1 50 (at_hour (january 31) 10) ''EU'' ''store'']"

definition customer :: "int \<Rightarrow> real \<Rightarrow> bool \<Rightarrow> CustomerMetrics" where
  "customer i clv active =
     \<lparr>metrics_id = i, metrics_customer_id = ''C'' @ str_int i, total_orders = 1,
      total_spent = clv, avg_order_value = clv,
      last_purchase_date = at_hour (january 10) 9, customer_lifetime_value = clv,
      is_active = active, acquisition_date = at_hour (january 1) 0,
      updated_at = at_hour (january 10) 9\<rparr>"

definition example_customers :: "CustomerMetrics list" where
  "example_customers = [customer 1 10 True, customer 2 20 False, customer 3 30 True]"

definition example_db :: database where
  "example_db = \<lparr>sales_transactions = example_sales, customer_metrics = example_customers\<rparr>"

definition empty_db :: database where
  "empty_db = \<lparr>sales_transactions = [], customer_metrics = []\<rparr>"

text \<open>Two products in two categories with equal revenues, and one product whose quantities
  add up to \<open>2 ^ 63\<close>.\<close>

definition tied_sales :: "SalesTransaction list" where
  "tied_sales =
     [(sale 1 ''P1'' ''Widget'' 2 50 (at_hour (january 10) 9) ''US'' ''online'')\<lparr>category := ''A''\<rparr>,
      (sale 2 ''P2'' ''Gadget'' 1 50 (at_hour (january 20) 14) ''EU'' ''online'')\<lparr>category := ''B''\<rparr>]"

definition heavy_sales :: "SalesTransaction list" where
  "heavy_sales =
     [sale 1 ''P1'' ''Widget'' (2 ^ 63 - 1) 100 (at_hour (january 10) 9) ''US'' ''online'',
      sale 2 ''P1'' ''Widget'' 1 50 (at_hour (january 20) 14) ''US'' ''online'']"

definition no_faults :: faults where
  "no_faults k = False"

section \<open>Text order of dates\<close>

text \<open>
  The digits of a number padded to a fixed width compare, as text, the way the numbers do.
  So do ISO dates; and the text of a stored \<open>DateTime\<close> starts with its date and goes on.
\<close>

lemma digits_codes:
  "map of_char ''0123456789'' = [48, 49, 50, 51, 52, 53, 54, 55, 56, 57 :: nat]"
  by simp

lemma codes_nth: "k < 10 \<Longrightarrow> [48, 49, 50, 51, 52, 53, 54, 55, 56, 57 :: nat] ! k = 48 + k"
  by (simp add: nth_Cons')

lemma of_char_digit: "of_char (digit n) = 48 + n mod 10"
proof -
  have "of_char (digit n) = map of_char ''0123456789'' ! (n mod 10)"
    unfolding digit_def by (subst nth_map) simp_all
  also have "\<dots> = 48 + n mod 10"
    unfolding digits_codes by (rule codes_nth) simp
  finally show ?thesis .
qed

lemma digit_less: "digit a < digit b \<longleftrightarrow> a mod 10 < b mod 10"
  by (simp add: less_char_def of_char_digit)

lemma digit_eq: "digit a = digit b \<longleftrightarrow> a mod 10 = b mod 10"
proof
  assume "digit a = digit b"
  then have "(of_char (digit a) :: nat) = of_char (digit b)" by simp
  then show "a mod 10 = b mod 10" by (simp add: of_char_digit)
next
  assume "a mod 10 = b mod 10"
  then show "digit a = digit b" by (simp add: digit_def)
qed

lemma digit_mod: "digit (n mod 10) = digit n"
  by (simp add: digit_def)

lemma lex_lin: "ra < 10 \<Longrightarrow> rb < 10 \<Longrightarrow>
   (qa < qb \<or> qa = qb \<and> ra < rb) \<longleftrightarrow> 10 * qa + ra < 10 * qb + (rb::nat)"
  by linarith

lemma lex_step: "(a div 10 < b div 10 \<or> a div 10 = b div 10 \<and> a mod 10 < b mod 10) \<longleftrightarrow> a < (b::nat)"
proof -
  have "(a div 10 < b div 10 \<or> a div 10 = b div 10 \<and> a mod 10 < b mod 10)
      \<longleftrightarrow> 10 * (a div 10) + a mod 10 < 10 * (b div 10) + b mod 10"
    by (rule lex_lin) simp_all
  then show ?thesis by simp
qed

lemma eq_step: "(a div 10 = b div 10 \<and> a mod 10 = b mod 10) \<longleftrightarrow> a = (b::nat)"
  by (metis div_mult_mod_eq)

lemma str_nat_1: "n < 10 \<Longrightarrow> str_nat n = [digit n]"
  by (simp add: str_nat.simps)

lemma str_nat_step: "10 \<le> n \<Longrightarrow> str_nat n = str_nat (n div 10) @ [digit n]"
  by (subst str_nat.simps) (simp add: digit_mod)

lemma append_less_same_length:
  "length xs = length ys \<Longrightarrow> (xs @ u < ys @ v) \<longleftrightarrow> (xs < ys \<or> xs = ys \<and> u < v)"
  for xs ys :: "'a::linorder list"
  by (induction xs ys rule: list_induct2) auto

lemma length_str_nat: "0 < w \<Longrightarrow> n < 10 ^ w \<Longrightarrow> length (str_nat n) \<le> w"
proof (induction w arbitrary: n)
  case 0
  then show ?case by simp
next
  case (Suc w)
  show ?case
  proof (cases "n < 10")
    case True
    then show ?thesis by (simp add: str_nat_1)
  next
    case False
    then have w: "0 < w" using Suc.prems by (cases w) auto
    have "n div 10 < 10 ^ w" using Suc.prems by (simp add: less_mult_imp_div_less mult.commute)
    then have "length (str_nat (n div 10)) \<le> w" using Suc.IH w by simp
    then show ?thesis using False by (simp add: str_nat_step)
  qed
qed

lemma length_zfill: "0 < w \<Longrightarrow> n < 10 ^ w \<Longrightarrow> length (zfill w (str_nat n)) = w"
  using length_str_nat [of w n] by (simp add: zfill_def)

lemma zfill_1: "n < 10 \<Longrightarrow> zfill (Suc 0) (str_nat n) = [digit n]"
  by (simp add: zfill_def str_nat_1)

lemma zfill_step: "0 < w \<Longrightarrow> zfill (Suc w) (str_nat n) = zfill w (str_nat (n div 10)) @ [digit n]"
proof (cases "n < 10")
  case True
  assume "0 < w"
  then obtain v where v: "w = Suc v" by (cases w) auto
  have "digit 0 = CHR ''0''" by (simp add: digit_def)
  then show ?thesis using True
    by (simp add: str_nat_1 zfill_def v replicate_append_same)
next
  case False
  then show ?thesis by (simp add: str_nat_step zfill_def Suc_diff_le)
qed

lemma zfill_order:
  "0 < w \<Longrightarrow> a < 10 ^ w \<Longrightarrow> b < 10 ^ w \<Longrightarrow>
     (zfill w (str_nat a) < zfill w (str_nat b) \<longleftrightarrow> a < b) \<and>
     (zfill w (str_nat a) = zfill w (str_nat b) \<longleftrightarrow> a = b)"
proof (induction w arbitrary: a b)
  case 0
  then show ?case by simp
next
  case (Suc w)
  show ?case
  proof (cases "w = 0")
    case True
    then have "a < 10" "b < 10" using Suc.prems by simp_all
    then show ?thesis using True
      by (simp add: zfill_1 digit_less digit_eq)
  next
    case False
    then have w: "0 < w" by simp
    have a: "a div 10 < 10 ^ w" and b: "b div 10 < 10 ^ w"
      using Suc.prems by (simp_all add: less_mult_imp_div_less mult.commute)
    have len: "length (zfill w (str_nat (a div 10))) = length (zfill w (str_nat (b div 10)))"
      using a b w by (simp add: length_zfill)
    note ih = Suc.IH [OF w a b]
    have less: "(zfill (Suc w) (str_nat a) < zfill (Suc w) (str_nat b)) \<longleftrightarrow> a < b"
      using ih lex_step [of a b]
      by (simp add: zfill_step [OF w] append_less_same_length [OF len] digit_less)
    have eq: "(zfill (Suc w) (str_nat a) = zfill (Suc w) (str_nat b)) \<longleftrightarrow> a = b"
      using ih eq_step [of a b] by (simp add: zfill_step [OF w] digit_eq)
    show ?thesis using less eq by simp
  qed
qed

lemma zfill_less: "0 < w \<Longrightarrow> a < 10 ^ w \<Longrightarrow> b < 10 ^ w \<Longrightarrow>
    zfill w (str_nat a) < zfill w (str_nat b) \<longleftrightarrow> a < b"
  using zfill_order by blast

lemma zfill_eq: "0 < w \<Longrightarrow> a < 10 ^ w \<Longrightarrow> b < 10 ^ w \<Longrightarrow>
    zfill w (str_nat a) = zfill w (str_nat b) \<longleftrightarrow> a = b"
  using zfill_order by blast

lemma days_in_month_le: "m \<le> 12 \<Longrightarrow> days_in_month y m \<le> 31"
proof -
  assume "m \<le> 12"
  then have "[31, 28, 31, 30, 31, 30, 31, 31, 30, 31, 30, 31 :: nat] ! (m - 1)
      \<in> set [31, 28, 31, 30, 31, 30, 31, 31, 30, 31, 30, 31]"
    by (intro nth_mem) simp
  then have "[31, 28, 31, 30, 31, 30, 31, 31, 30, 31, 30, 31 :: nat] ! (m - 1) \<le> 31"
    by auto
  then show ?thesis by (simp add: days_in_month_def)
qed

lemma valid_date_bounds:
  "valid_date d \<Longrightarrow> year d < 10 ^ 4 \<and> month d < 10 ^ 2 \<and> day d < 10 ^ 2"
  using days_in_month_le [of "month d" "year d"] by (simp add: valid_date_def)

lemma length_isoformat: "valid_date d \<Longrightarrow> length (isoformat d) = 10"
  using valid_date_bounds [of d] by (simp add: isoformat_def length_zfill)

lemma isoformat_less:
  assumes "valid_date a" and "valid_date b"
  shows "isoformat a < isoformat b \<longleftrightarrow> date_less a b"
proof -
  note ba = valid_date_bounds [OF assms(1)] and bb = valid_date_bounds [OF assms(2)]
  have ly: "length (zfill 4 (str_nat (year a))) = length (zfill 4 (str_nat (year b)))"
    using ba bb by (simp add: length_zfill)
  have lm: "length (zfill 2 (str_nat (month a))) = length (zfill 2 (str_nat (month b)))"
    using ba bb by (simp add: length_zfill)
  have y: "zfill 4 (str_nat (year a)) < zfill 4 (str_nat (year b)) \<longleftrightarrow> year a < year b"
    "zfill 4 (str_nat (year a)) = zfill 4 (str_nat (year b)) \<longleftrightarrow> year a = year b"
    using ba bb by (simp_all add: zfill_less zfill_eq)
  have m: "zfill 2 (str_nat (month a)) < zfill 2 (str_nat (month b)) \<longleftrightarrow> month a < month b"
    "zfill 2 (str_nat (month a)) = zfill 2 (str_nat (month b)) \<longleftrightarrow> month a = month b"
    using ba bb by (simp_all add: zfill_less zfill_eq)
  have d: "zfill 2 (str_nat (day a)) < zfill 2 (str_nat (day b)) \<longleftrightarrow> day a < day b"
    using ba bb by (simp add: zfill_less)
  show ?thesis
    unfolding isoformat_def date_less_def
    by (simp add: append_less_same_length [OF ly] append_less_same_length [OF lm] y m d)
qed

lemma isoformat_eq:
  assumes "valid_date a" and "valid_date b"
  shows "isoformat a = isoformat b \<longleftrightarrow> a = b"
proof -
  note ba = valid_date_bounds [OF assms(1)] and bb = valid_date_bounds [OF assms(2)]
  have ly: "length (zfill 4 (str_nat (year a))) = length (zfill 4 (str_nat (year b)))"
    using ba bb by (simp add: length_zfill)
  have lm: "length (zfill 2 (str_nat (month a))) = length (zfill 2 (str_nat (month b)))"
    using ba bb by (simp add: length_zfill)
  have "isoformat a = isoformat b \<longleftrightarrow>
     year a = year b \<and> month a = month b \<and> day a = day b"
    unfolding isoformat_def using ba bb ly lm
    by (simp add: zfill_eq)
  then show ?thesis by auto
qed

lemma isoformat_le:
  "valid_date a \<Longrightarrow> valid_date b \<Longrightarrow> isoformat a \<le> isoformat b \<longleftrightarrow> date_le a b"
  by (simp add: le_less isoformat_less isoformat_eq date_le_def)

lemma sqlite_datetime_split:
  "\<exists>u. u \<noteq> [] \<and> sqlite_datetime t = isoformat (on_date t) @ u"
  by (simp add: sqlite_datetime_def)

lemma literal_le_stored:
  assumes "valid_date s" and "valid_date (on_date t)"
  shows "isoformat s \<le> sqlite_datetime t \<longleftrightarrow> date_le s (on_date t)"
proof -
  obtain u where u: "u \<noteq> []" "sqlite_datetime t = isoformat (on_date t) @ u"
    using sqlite_datetime_split by blast
  have len: "length (isoformat s) = length (isoformat (on_date t))"
    using assms by (simp add: length_isoformat)
  have "isoformat s @ [] < isoformat (on_date t) @ u \<longleftrightarrow>
      isoformat s < isoformat (on_date t) \<or> isoformat s = isoformat (on_date t) \<and> [] < u"
    by (rule append_less_same_length [OF len])
  moreover have "[] < u" using u(1) by (cases u) simp_all
  moreover have "isoformat s \<noteq> isoformat (on_date t) @ u"
    using len u(1) by (metis append_eq_append_conv append_Nil2)
  ultimately show ?thesis
    using assms by (simp add: u(2) le_less isoformat_less isoformat_eq date_le_def)
qed

lemma stored_le_literal:
  assumes "valid_date e" and "valid_date (on_date t)"
  shows "sqlite_datetime t \<le> isoformat e \<longleftrightarrow> date_less (on_date t) e"
proof -
  obtain u where u: "u \<noteq> []" "sqlite_datetime t = isoformat (on_date t) @ u"
    using sqlite_datetime_split by blast
  have len: "length (isoformat (on_date t)) = length (isoformat e)"
    using assms by (simp add: length_isoformat)
  have "isoformat (on_date t) @ u < isoformat e @ [] \<longleftrightarrow>
      isoformat (on_date t) < isoformat e \<or> isoformat (on_date t) = isoformat e \<and> u < []"
    by (rule append_less_same_length [OF len])
  moreover have "isoformat (on_date t) @ u \<noteq> isoformat e"
    using len u(1) by (metis append_eq_append_conv append_Nil2)
  ultimately show ?thesis
    using assms by (simp add: u(2) le_less isoformat_less)
qed

section \<open>Stepping back in the calendar\<close>

text \<open>
  \<open>d - timedelta(days=n)\<close> exists when \<open>d\<close> lies more than \<open>n\<close> days after
  0001-01-01; counting 28 days for every month gives a bound that is easy to check.
\<close>

lemma days_in_month_ge: "1 \<le> m \<Longrightarrow> m \<le> 12 \<Longrightarrow> 28 \<le> days_in_month y m"
proof -
  assume "1 \<le> m" "m \<le> 12"
  then have "[31, 28, 31, 30, 31, 30, 31, 31, 30, 31, 30, 31 :: nat] ! (m - 1)
      \<in> set [31, 28, 31, 30, 31, 30, 31, 31, 30, 31, 30, 31]"
    by (intro nth_mem) simp
  then have "28 \<le> [31, 28, 31, 30, 31, 30, 31, 31, 30, 31, 30, 31 :: nat] ! (m - 1)"
    by auto
  then show ?thesis by (simp add: days_in_month_def)
qed

lemma days_in_december: "days_in_month y 12 = 31"
  by (simp add: days_in_month_def)

lemma yesterday_step:
  assumes "valid_date d"
    and "1 < 336 * (year d - 1) + 28 * (month d - 1) + day d"
  shows "\<exists>p. yesterday d = Inr p \<and> valid_date p \<and>
     336 * (year d - 1) + 28 * (month d - 1) + day d
       \<le> Suc (336 * (year p - 1) + 28 * (month p - 1) + day p)"
proof -
  have low: "1 \<le> day d" "1 \<le> month d"
    using assms(1) by (simp_all add: valid_date_def)
  have first: "1 < year d" if "day d = 1" and "month d = 1"
    using assms(2) that by simp
  consider "1 < day d" | "day d = 1" "1 < month d" | "day d = 1" "month d = 1" "1 < year d"
  proof (cases "1 < day d")
    case True
    then show ?thesis using that(1) by simp
  next
    case False
    then have d1: "day d = 1" using low(1) by linarith
    show ?thesis
    proof (cases "1 < month d")
      case True
      then show ?thesis using that(2) d1 by simp
    next
      case False
      then have m1: "month d = 1" using low(2) by linarith
      show ?thesis using that(3) d1 m1 first by simp
    qed
  qed
  then show ?thesis
  proof cases
    case 1
    then show ?thesis using assms(1) by (auto simp add: yesterday_def valid_date_def)
  next
    case 2
    have "28 \<le> days_in_month (year d) (month d - 1)"
      using 2 assms(1) by (intro days_in_month_ge) (auto simp add: valid_date_def)
    moreover obtain k where k: "month d = Suc (Suc k)"
      using less_imp_Suc_add [OF 2(2)] by auto
    ultimately show ?thesis using 2 assms(1)
      by (auto simp add: yesterday_def valid_date_def)
  next
    case 3
    obtain k where k: "year d = Suc (Suc k)"
      using less_imp_Suc_add [OF 3(3)] by auto
    show ?thesis using 3 assms(1)
      by (auto simp add: yesterday_def valid_date_def days_in_december k)
  qed
qed

lemma minus_days_total:
  "valid_date d \<Longrightarrow> n < 336 * (year d - 1) + 28 * (month d - 1) + day d \<Longrightarrow>
     \<exists>p. minus_days d n = Inr p \<and> valid_date p"
proof (induction n arbitrary: d)
  case 0
  then show ?case by simp
next
  case (Suc n)
  then obtain p where p: "yesterday d = Inr p" "valid_date p"
    "336 * (year d - 1) + 28 * (month d - 1) + day d
       \<le> Suc (336 * (year p - 1) + 28 * (month p - 1) + day p)"
    using yesterday_step [of d] by auto
  then have "n < 336 * (year p - 1) + 28 * (month p - 1) + day p"
    using Suc.prems(2) by linarith
  then show ?case using Suc.IH [OF p(2)] p(1) by simp
qed

lemma date_window_given:
  "date_window today (Some s) (Some e) = Inr (s, e)"
  by (simp add: date_window_def)

lemma date_window_total:
  assumes "valid_date (case end_date of None \<Rightarrow> today | Some d \<Rightarrow> d)"
    and "start_date = None \<longrightarrow> 1 < year (case end_date of None \<Rightarrow> today | Some d \<Rightarrow> d)"
  shows "\<exists>s. date_window today start_date end_date =
     Inr (s, case end_date of None \<Rightarrow> today | Some d \<Rightarrow> d)"
proof (cases start_date)
  case None
  let ?e = "case end_date of None \<Rightarrow> today | Some d \<Rightarrow> d"
  have "1 < year ?e" using assms(2) None by simp
  then have "30 < 336 * (year ?e - 1) + 28 * (month ?e - 1) + day ?e"
    by linarith
  then obtain p where "minus_days ?e 30 = Inr p"
    using minus_days_total [OF assms(1), of 30] by blast
  then show ?thesis using None by (simp add: date_window_def)
next
  case (Some s)
  then show ?thesis by (simp add: date_window_def)
qed

section \<open>Running the statements\<close>

lemma execute_ok:
  "list_all (\<lambda>cnd. inert (snd (snd cnd))) conds \<Longrightarrow> \<not> fl k \<Longrightarrow> execute fl k conds x = Returns x"
  by (simp add: execute_def storage_call_def)

lemma execute_nil: "execute fl k [] x = (if fl k then Raises OperationalError else Returns x)"
  by (simp add: execute_def storage_call_def)

lemma and_then_simps [simp]:
  "and_then (Returns x) f = f x"
  "and_then (Raises e) f = Raises e"
  "and_then Unmodelled f = Unmodelled"
  by (simp_all add: and_then_def)

lemma except_500_simps [simp]:
  "except_500 (Returns r) = Response r"
  "except_500 (Raises e) = HTTPException 500 ''Internal server error''"
  "except_500 Unmodelled = Not_modelled"
  by (simp_all add: except_500_def)

lemma digit_inert: "digit n \<notin> set [CHR 0x27, CHR 0x5C, CHR '':'', CHR 0x00]"
proof
  assume "digit n \<in> set [CHR 0x27, CHR 0x5C, CHR '':'', CHR 0x00]"
  then have "(of_char (digit n) :: nat) \<in> {39, 92, 58, 0}"
    by auto
  moreover have "n mod 10 < 10" by simp
  ultimately show False
    unfolding of_char_digit by auto
qed

lemma inert_append [simp]: "inert (xs @ ys) \<longleftrightarrow> inert xs \<and> inert ys"
  by (simp add: inert_def)

lemma inert_str_nat: "inert (str_nat n)"
proof (induction n rule: str_nat.induct)
  case (1 n)
  have d: "inert [digit k]" for k
    using digit_inert [of k] by (simp add: inert_def)
  show ?case
  proof (cases "n < 10")
    case True
    then show ?thesis by (simp add: str_nat.simps [of n] d)
  next
    case False
    then show ?thesis using 1 by (simp add: str_nat.simps [of n] d)
  qed
qed

lemma inert_zfill: "inert (zfill w (str_nat n))"
proof -
  have "inert (replicate k (CHR ''0''))" for k
    by (induction k) (simp_all add: inert_def)
  then show ?thesis by (simp add: zfill_def inert_str_nat)
qed

lemma inert_Cons:
  "inert (c # cs) \<longleftrightarrow> c \<notin> set [CHR 0x27, CHR 0x5C, CHR '':'', CHR 0x00] \<and> inert cs"
  by (simp add: inert_def)

lemma inert_isoformat: "inert (isoformat d)"
  by (simp add: isoformat_def inert_zfill inert_Cons)

lemma inert_optional:
  "plain v \<Longrightarrow> list_all (\<lambda>cnd. inert (snd (snd cnd))) (optional_condition c v)"
  by (simp add: plain_def optional_condition_def split: option.splits)

lemma inert_where_clause:
  "plain rp \<Longrightarrow> plain cp \<Longrightarrow>
     list_all (\<lambda>cnd. inert (snd (snd cnd))) (where_clause s e rp cp)"
  by (simp add: where_clause_def inert_isoformat inert_optional)

lemma float_or_0_sum: "float_or_0 (sql_sum xs) = sum_list xs"
  by (simp add: float_or_0_def sql_sum_def)

lemma float_or_0_avg:
  "float_or_0 (sql_avg xs) = (if xs = [] then 0 else sum_list xs / real (length xs))"
  by (simp add: float_or_0_def sql_avg_def)

lemma int_or_0_id [simp]: "int_or_0 x = x"
  by (simp add: int_or_0_def)

text \<open>
  What the 64-bit sum returns, when it returns, and when it does.
\<close>

lemma sum_int64_Inr: "sum_int64 a xs = Inr t \<Longrightarrow> t = a + sum_list xs"
proof (induction xs arbitrary: a)
  case Nil
  then show ?case by simp
next
  case (Cons x xs)
  from Cons.prems have "sum_int64 (a + x) xs = Inr t"
    by (simp split: if_splits)
  then have "t = a + x + sum_list xs" by (rule Cons.IH)
  then show ?case by simp
qed

lemma sql_sum_int_Inr: "sql_sum_int xs = Inr t \<Longrightarrow> t = sum_list xs"
  using sum_int64_Inr [of 0 xs t] by (simp add: sql_sum_int_def)

lemma sum_int64_fits:
  assumes "\<forall>x \<in> set xs. 0 \<le> x" and "0 \<le> a" and "a + sum_list xs < 2 ^ 63"
  shows "sum_int64 a xs = Inr (a + sum_list xs)"
  using assms
proof (induction xs arbitrary: a)
  case Nil
  then show ?case by simp
next
  case (Cons x xs)
  have nonneg: "0 \<le> sum_list xs"
    using Cons.prems(1) by (simp add: sum_list_nonneg)
  have x: "0 \<le> x" using Cons.prems(1) by simp
  have "int64 (a + x)"
    using Cons.prems(2,3) nonneg x by (simp add: int64_def)
  moreover have "sum_int64 (a + x) xs = Inr (a + x + sum_list xs)"
    using Cons.prems x by (intro Cons.IH) (simp_all add: add.assoc)
  ultimately show ?case by (simp add: add.assoc)
qed

lemma sql_sum_int_fits:
  assumes "\<forall>x \<in> set xs. 0 \<le> x" and "sum_list xs < 2 ^ 63"
  shows "sql_sum_int xs = Inr (sum_list xs)"
  using sum_int64_fits [OF assms(1), of 0] assms(2) by (simp add: sql_sum_int_def)

lemma all_groups_Inr: "all_groups gs = Inr vs \<Longrightarrow> gs = map Inr vs"
  by (induction gs arbitrary: vs) (auto split: sum.splits)

lemma all_groups_map_Inr: "all_groups (map Inr vs) = Inr vs"
  by (induction vs) simp_all

lemma map_Inr_eq:
  assumes "map f xs = map Inr ys" and "\<And>x y. f x = Inr y \<Longrightarrow> y = g x"
  shows "ys = map g xs"
  using assms(1)
proof (induction xs arbitrary: ys)
  case Nil
  then show ?case by simp
next
  case (Cons x xs)
  then obtain y ys' where ys: "ys = y # ys'" "f x = Inr y" "map f xs = map Inr ys'"
    by (cases ys) auto
  then show ?case using Cons.IH [OF ys(3)] assms(2) [OF ys(2)] by simp
qed

text \<open>
  With inert filters, no failing statement and no overflowing sum of quantities the sales
  endpoint answers, and every field of its answer is computed from the rows its
  \<open>WHERE\<close> clause selects.
\<close>

lemma sales_analytics_returns:
  assumes "date_window today start_date end_date = Inr (s, e)"
    and "plain rp" and "plain cp"
    and "\<not> fl 0" and "\<not> fl 1" and "\<not> fl 2" and "\<not> fl 3"
    and rows: "rows = selected (where_clause s e rp cp) (sales_transactions db)"
    and tops: "top_products_query rows = Inr tops"
  shows "get_sales_analytics today start_date end_date rp cp fl db =
     Response
       \<lparr>total_revenue = sum_list (map total_amount rows),
        total_transactions = int (length rows),
        avg_transaction_value =
          (if rows = [] then 0 else sum_list (map total_amount rows) / real (length rows)),
        top_selling_products = tops,
        revenue_by_region = dict_of_rows (revenue_by region rows),
        revenue_by_channel = dict_of_rows (revenue_by channel rows)\<rparr>"
proof -
  note ok = execute_ok [OF inert_where_clause [OF assms(2,3)]]
  show ?thesis
    unfolding get_sales_analytics_def sales_analytics_def rows [symmetric] Let_def
    by (simp add: assms(1) rows [symmetric] ok assms(4-7) revenue_query_def float_or_0_sum
        float_or_0_avg sql_count_def tops raise_or_return_def del: One_nat_def)
qed

lemma holds_where_clause:
  assumes "valid_date s" and "valid_date e" and "valid_date (on_date (transaction_date r))"
  shows "list_all (\<lambda>c. holds c r) (where_clause s e rp cp) \<longleftrightarrow>
     date_le s (on_date (transaction_date r)) \<and> date_less (on_date (transaction_date r)) e \<and>
     matches rp (region r) \<and> matches cp (channel r)"
proof -
  have opt: "list_all (\<lambda>c. holds c r) (optional_condition Col_region rp) \<longleftrightarrow> matches rp (region r)"
    "list_all (\<lambda>c. holds c r) (optional_condition Col_channel cp) \<longleftrightarrow> matches cp (channel r)"
    by (auto simp add: optional_condition_def matches_def holds_def column_text_def
        split: option.splits)
  have lower: "holds (Col_transaction_date, Ge, isoformat s) r \<longleftrightarrow>
      date_le s (on_date (transaction_date r))"
    using literal_le_stored [OF assms(1,3)] by (simp add: holds_def column_text_def)
  have upper: "holds (Col_transaction_date, Le, isoformat e) r \<longleftrightarrow>
      date_less (on_date (transaction_date r)) e"
    using stored_le_literal [OF assms(2,3)] by (simp add: holds_def column_text_def)
  show ?thesis
    by (simp add: where_clause_def opt lower upper)
qed


lemma insort_key_map:
  "insort_key f (h x) (map h xs) = map h (insort_key (\<lambda>y. f (h y)) x xs)"
  by (induction xs) simp_all

lemma sort_key_map: "sort_key f (map h xs) = map h (sort_key (\<lambda>y. f (h y)) xs)"
  by (induction xs) (simp_all add: insort_key_map)

lemma top_by_desc:
  fixes f :: "'b \<Rightarrow> real" and h :: "'a \<Rightarrow> 'b" and n :: nat and ks :: "'a list"
  assumes "distinct ks"
  defines "best \<equiv> take n (sort_key (\<lambda>k. - f (h k)) ks)"
  shows "limit n (order_by_desc f (map h ks)) = map h best"
    and "distinct best" and "set best \<subseteq> set ks" and "length best = min n (length ks)"
    and "sorted_wrt (\<lambda>a b. f b \<le> f a) (map h best)"
    and "\<forall>k \<in> set ks - set best. \<forall>t \<in> set best. f (h k) \<le> f (h t)"
proof -
  let ?L = "sort_key (\<lambda>k. - f (h k)) ks"
  show "limit n (order_by_desc f (map h ks)) = map h best"
    by (simp add: limit_def order_by_desc_def sort_key_map best_def take_map)
  show "distinct best" using assms(1) by (simp add: best_def)
  show "set best \<subseteq> set ks" using set_take_subset [of n ?L] by (simp add: best_def)
  show "length best = min n (length ks)" by (simp add: best_def min.commute)
  have sorted: "sorted_wrt (\<lambda>a b. f (h b) \<le> f (h a)) ?L"
    using sorted_sort_key [of "\<lambda>k. - f (h k)" ks] by (simp add: sorted_map)
  then show "sorted_wrt (\<lambda>a b. f b \<le> f a) (map h best)"
    by (simp add: sorted_wrt_map best_def)
  have "sorted_wrt (\<lambda>a b. f (h b) \<le> f (h a)) (take n ?L @ drop n ?L)"
    using sorted by simp
  then have cross: "\<forall>x \<in> set (take n ?L). \<forall>y \<in> set (drop n ?L). f (h y) \<le> f (h x)"
    unfolding sorted_wrt_append by blast
  have "set ks = set (take n ?L) \<union> set (drop n ?L)"
    by (metis append_take_drop_id set_append set_sort)
  then show "\<forall>k \<in> set ks - set best. \<forall>t \<in> set best. f (h k) \<le> f (h t)"
    using cross by (auto simp add: best_def)
qed

text \<open>
  The two ranking statements, when no sum of quantities overflows: one entry per key, with
  the sums over the rows of the key, the ten largest revenues first.
\<close>

lemma top_products_query_Inr:
  assumes "top_products_query rows = Inr tops"
  shows "tops =
     limit 10 (order_by_desc sold_total_revenue
       (map (\<lambda>k. \<lparr>sold_product_name = fst k,
                   sold_total_quantity =
                     sum_list (map quantity (filter (\<lambda>x. product_key x = k) rows)),
                   sold_total_revenue =
                     sum_list (map total_amount (filter (\<lambda>x. product_key x = k) rows))\<rparr>)
          (sort (remdups (map product_key rows)))))"
proof -
  let ?f = "\<lambda>k. product_totals (k, filter (\<lambda>x. product_key x = k) rows)"
  let ?keys = "sort (remdups (map product_key rows))"
  obtain totals where t: "all_groups (map ?f ?keys) = Inr totals"
    and tops: "tops = limit 10 (order_by_desc sold_total_revenue totals)"
    using assms by (auto simp add: top_products_query_def group_by_def comp_def split: sum.splits)
  have "map ?f ?keys = map Inr totals" using t by (rule all_groups_Inr)
  then have "totals = map (\<lambda>k. \<lparr>sold_product_name = fst k,
                   sold_total_quantity =
                     sum_list (map quantity (filter (\<lambda>x. product_key x = k) rows)),
                   sold_total_revenue =
                     sum_list (map total_amount (filter (\<lambda>x. product_key x = k) rows))\<rparr>) ?keys"
    by (rule map_Inr_eq) (auto simp add: product_totals_def split: sum.splits dest: sql_sum_int_Inr)
  then show ?thesis using tops by simp
qed

lemma top_performing_query_Inr:
  assumes "top_performing_query rows = Inr tops"
  shows "tops =
     limit 10 (order_by_desc perf_total_revenue
       (map (\<lambda>k. \<lparr>perf_product_name = fst (snd k),
                   perf_category = snd (snd k),
                   perf_total_sold =
                     sum_list (map quantity (filter (\<lambda>x. performance_key x = k) rows)),
                   perf_total_revenue =
                     sum_list (map total_amount (filter (\<lambda>x. performance_key x = k) rows)),
                   perf_avg_price =
                     sum_list (map unit_price (filter (\<lambda>x. performance_key x = k) rows))
                     / real (length (filter (\<lambda>x. performance_key x = k) rows))\<rparr>)
          (sort (remdups (map performance_key rows)))))"
proof -
  let ?f = "\<lambda>k. performance_totals (k, filter (\<lambda>x. performance_key x = k) rows)"
  let ?keys = "sort (remdups (map performance_key rows))"
  obtain totals where t: "all_groups (map ?f ?keys) = Inr totals"
    and tops: "tops = limit 10 (order_by_desc perf_total_revenue totals)"
    using assms
    by (auto simp add: top_performing_query_def group_by_def comp_def split: sum.splits)
  have "map ?f ?keys = map Inr totals" using t by (rule all_groups_Inr)
  then have "totals = map (\<lambda>k. \<lparr>perf_product_name = fst (snd k),
                   perf_category = snd (snd k),
                   perf_total_sold =
                     sum_list (map quantity (filter (\<lambda>x. performance_key x = k) rows)),
                   perf_total_revenue =
                     sum_list (map total_amount (filter (\<lambda>x. performance_key x = k) rows)),
                   perf_avg_price =
                     sum_list (map unit_price (filter (\<lambda>x. performance_key x = k) rows))
                     / real (length (filter (\<lambda>x. performance_key x = k) rows))\<rparr>) ?keys"
    by (rule map_Inr_eq)
      (auto simp add: performance_totals_def split: sum.splits dest: sql_sum_int_Inr)
  then show ?thesis using tops by simp
qed

text \<open>
  Quantities that are not negative and whose sum over the rows is below \<open>2 ^ 63\<close> do not
  overflow in any group.
\<close>

lemma sum_list_filter_le:
  fixes f :: "'a \<Rightarrow> int"
  assumes "\<forall>r \<in> set rows. 0 \<le> f r"
  shows "sum_list (map f (filter P rows)) \<le> sum_list (map f rows)"
  using assms by (induction rows) (auto simp add: add_increasing)

lemma group_sum_fits:
  assumes "\<forall>r \<in> set rows. 0 \<le> quantity r" and "sum_list (map quantity rows) < 2 ^ 63"
  shows "sql_sum_int (map quantity (filter P rows)) =
     Inr (sum_list (map quantity (filter P rows)))"
proof (rule sql_sum_int_fits)
  show "\<forall>x \<in> set (map quantity (filter P rows)). 0 \<le> x"
    using assms(1) by auto
  show "sum_list (map quantity (filter P rows)) < 2 ^ 63"
    using sum_list_filter_le [OF assms(1), of P] assms(2) by linarith
qed

lemma top_products_query_total:
  assumes "\<forall>r \<in> set rows. 0 \<le> quantity r" and "sum_list (map quantity rows) < 2 ^ 63"
  shows "\<exists>tops. top_products_query rows = Inr tops"
proof -
  let ?h = "\<lambda>k. \<lparr>sold_product_name = fst k,
                   sold_total_quantity =
                     sum_list (map quantity (filter (\<lambda>x. product_key x = k) rows)),
                   sold_total_revenue =
                     sum_list (map total_amount (filter (\<lambda>x. product_key x = k) rows))\<rparr>"
  have eq: "map product_totals (group_by product_key rows) =
      map Inr (map ?h (sort (remdups (map product_key rows))))"
    by (simp add: group_by_def comp_def product_totals_def group_sum_fits [OF assms])
  show ?thesis
    unfolding top_products_query_def eq all_groups_map_Inr by simp
qed

lemma top_performing_query_total:
  assumes "\<forall>r \<in> set rows. 0 \<le> quantity r" and "sum_list (map quantity rows) < 2 ^ 63"
  shows "\<exists>tops. top_performing_query rows = Inr tops"
proof -
  let ?h = "\<lambda>k. \<lparr>perf_product_name = fst (snd k),
                   perf_category = snd (snd k),
                   perf_total_sold =
                     sum_list (map quantity (filter (\<lambda>x. performance_key x = k) rows)),
                   perf_total_revenue =
                     sum_list (map total_amount (filter (\<lambda>x. performance_key x = k) rows)),
                   perf_avg_price =
                     sum_list (map unit_price (filter (\<lambda>x. performance_key x = k) rows))
                     / real (length (filter (\<lambda>x. performance_key x = k) rows))\<rparr>"
  have eq: "map performance_totals (group_by performance_key rows) =
      map Inr (map ?h (sort (remdups (map performance_key rows))))"
    by (simp add: group_by_def comp_def performance_totals_def group_sum_fits [OF assms])
  show ?thesis
    unfolding top_performing_query_def eq all_groups_map_Inr by simp
qed

lemma product_analytics_returns:
  assumes "plain cat" and "\<not> fl 0" and "\<not> fl 1" and "\<not> fl 2"
    and "rows = selected (optional_condition Col_category cat) (sales_transactions db)"
    and "performance = dict_of_rows (category_query (sales_transactions db))"
    and tops: "top_performing_query rows = Inr tops"
  shows "get_product_analytics cat fl db =
     Response
       \<lparr>total_products = total_products_query rows,
        top_performing_products = tops,
        category_performance = performance,
        inventory_insights =
          \<lparr>total_categories = length performance,
           most_profitable_category = max_key performance,
           least_profitable_category = min_key performance\<rparr>\<rparr>"
proof -
  note ok = execute_ok [OF inert_optional [OF assms(1), of Col_category]]
  show ?thesis
    using tops
    unfolding get_product_analytics_def product_analytics_def assms(5,6) Let_def
    by (simp add: ok assms(2-4) execute_nil raise_or_return_def del: One_nat_def)
qed

lemma product_response_fields:
  assumes "get_product_analytics cat fl db = Response r"
  shows "category_performance r = dict_of_rows (category_query (sales_transactions db)) \<and>
     inventory_insights r =
       \<lparr>total_categories = length (dict_of_rows (category_query (sales_transactions db))),
        most_profitable_category = max_key (dict_of_rows (category_query (sales_transactions db))),
        least_profitable_category = min_key (dict_of_rows (category_query (sales_transactions db)))\<rparr>"
proof -
  let ?conds = "optional_condition Col_category cat"
  let ?rows = "selected ?conds (sales_transactions db)"
  have "product_analytics cat fl db = Returns r"
    using assms by (cases "product_analytics cat fl db") (simp_all add: get_product_analytics_def)
  then obtain n answer tops crows where
    "execute fl 0 ?conds (total_products_query ?rows) = Returns n"
    "execute fl 1 ?conds (top_performing_query ?rows) = Returns answer"
    "raise_or_return answer = Returns tops"
    "execute fl 2 [] (category_query (sales_transactions db)) = Returns crows"
    and r: "r = \<lparr>total_products = int_or_0 n,
        top_performing_products = tops,
        category_performance = dict_of_rows crows,
        inventory_insights =
          \<lparr>total_categories = length (dict_of_rows crows),
           most_profitable_category = max_key (dict_of_rows crows),
           least_profitable_category = min_key (dict_of_rows crows)\<rparr>\<rparr>"
    unfolding product_analytics_def Let_def and_then_def
    by (auto split: outcome.splits)
  moreover from this(4) have "crows = category_query (sales_transactions db)"
    by (simp add: execute_nil split: if_splits)
  ultimately show ?thesis by simp
qed

lemma sales_fault:
  assumes "plain rp" and "plain cp" and "fl 0 \<or> fl 1 \<or> fl 2 \<or> fl 3"
  shows "get_sales_analytics today start_date end_date rp cp fl db =
     HTTPException 500 ''Internal server error''"
proof (cases "date_window today start_date end_date")
  case (Inl x)
  then show ?thesis
    by (simp add: get_sales_analytics_def sales_analytics_def)
next
  case (Inr w)
  obtain s e where w: "w = (s, e)" by (cases w)
  note inert = inert_where_clause [OF assms(1,2), of s e]
  have ex: "execute fl k (where_clause s e rp cp) x =
      (if fl k then Raises OperationalError else Returns x)" for k and x :: 'a
    using inert by (simp add: execute_def storage_call_def)
  show ?thesis
    using assms(3)
    by (auto simp add: get_sales_analytics_def sales_analytics_def Inr w Let_def ex
        raise_or_return_def simp del: One_nat_def split: sum.splits)
qed

lemma customer_fault:
  assumes "fl 0 \<or> fl 1 \<or> fl 2 \<or> fl 3"
  shows "get_customer_analytics start_date end_date fl db =
     HTTPException 500 ''Internal server error''"
proof -
  have "\<exists>v. retention_rate a t = Inr v" for a t
    by (simp add: retention_rate_def truediv_def)
  then obtain v where v: "retention_rate (sql_count (filter is_active (customer_metrics db)))
      (sql_count (customer_metrics db)) = Inr v"
    by blast
  show ?thesis
    using assms
    by (auto simp add: get_customer_analytics_def customer_analytics_def Let_def execute_nil v
        simp del: One_nat_def)
qed

lemma product_fault:
  assumes "plain cat" and "fl 0 \<or> fl 1 \<or> fl 2"
  shows "get_product_analytics cat fl db = HTTPException 500 ''Internal server error''"
proof -
  note inert = inert_optional [OF assms(1), of Col_category]
  have ex: "execute fl k (optional_condition Col_category cat) x =
      (if fl k then Raises OperationalError else Returns x)" for k and x :: 'a
    using inert by (simp add: execute_def storage_call_def)
  show ?thesis
    using assms(2)
    by (auto simp add: get_product_analytics_def product_analytics_def Let_def ex execute_nil
        raise_or_return_def simp del: One_nat_def split: sum.splits)
qed

text \<open>
  A sum of quantities that overflows fails its statement, and the request with it.
\<close>

lemma sales_overflow:
  assumes "date_window today start_date end_date = Inr (s, e)"
    and "plain rp" and "plain cp"
    and "top_products_query (selected (where_clause s e rp cp) (sales_transactions db)) = Inl x"
  shows "get_sales_analytics today start_date end_date rp cp fl db =
     HTTPException 500 ''Internal server error''"
proof -
  note inert = inert_where_clause [OF assms(2,3), of s e]
  have ex: "execute fl k (where_clause s e rp cp) y =
      (if fl k then Raises OperationalError else Returns y)" for k and y :: 'a
    using inert by (simp add: execute_def storage_call_def)
  show ?thesis
    by (simp add: get_sales_analytics_def sales_analytics_def assms(1,4) Let_def ex
        raise_or_return_def del: One_nat_def)
qed

lemma product_overflow:
  assumes "plain cat"
    and "top_performing_query (selected (optional_condition Col_category cat)
           (sales_transactions db)) = Inl x"
  shows "get_product_analytics cat fl db = HTTPException 500 ''Internal server error''"
proof -
  note inert = inert_optional [OF assms(1), of Col_category]
  have ex: "execute fl k (optional_condition Col_category cat) y =
      (if fl k then Raises OperationalError else Returns y)" for k and y :: 'a
    using inert by (simp add: execute_def storage_call_def)
  show ?thesis
    by (simp add: get_product_analytics_def product_analytics_def assms(2) Let_def ex
        raise_or_return_def del: One_nat_def)
qed

text \<open>
  A statement that is rejected has a literal that is not inert, and raises.
\<close>

lemma inert_no_quotes: "inert s \<Longrightarrow> quotes s = 0"
  by (induction s) (simp_all add: inert_Cons quotes_def)

lemma rejected_not_inert:
  assumes "rejected (map (\<lambda>cnd. snd (snd cnd)) conds)"
  shows "\<not> list_all (\<lambda>cnd. inert (snd (snd cnd))) conds"
proof
  assume "list_all (\<lambda>cnd. inert (snd (snd cnd))) conds"
  then have zero: "sum_list (map quotes (map (\<lambda>cnd. snd (snd cnd)) conds)) = 0"
    by (induction conds) (simp_all add: inert_no_quotes)
  have "odd (sum_list (map quotes (map (\<lambda>cnd. snd (snd cnd)) conds)))"
    using assms unfolding rejected_def by (rule conjunct1)
  then show False unfolding zero by simp
qed

lemma execute_rejected:
  "rejected (map (\<lambda>cnd. snd (snd cnd)) conds) \<Longrightarrow> execute fl k conds x = Raises OperationalError"
  using rejected_not_inert [of conds] by (simp add: execute_def)

lemma sales_rejected:
  assumes "date_window today start_date end_date = Inr (s, e)"
    and "rejected (map (\<lambda>cnd. snd (snd cnd)) (where_clause s e rp cp))"
  shows "get_sales_analytics today start_date end_date rp cp fl db =
     HTTPException 500 ''Internal server error''"
  by (simp add: get_sales_analytics_def sales_analytics_def assms(1) Let_def
      execute_rejected [OF assms(2)])

lemma product_rejected:
  assumes "rejected (map (\<lambda>cnd. snd (snd cnd)) (optional_condition Col_category cat))"
  shows "get_product_analytics cat fl db = HTTPException 500 ''Internal server error''"
  by (simp add: get_product_analytics_def product_analytics_def Let_def
      execute_rejected [OF assms])

section \<open>The endpoints on the small database\<close>

lemma length_example_customers:
  "length (customer_metrics example_db) = 3"
  "length (filter is_active (customer_metrics example_db)) = 2"
  by (simp_all add: example_db_def example_customers_def customer_def)

lemma example_clv:
  "sum_list (map customer_lifetime_value (customer_metrics example_db)) = 60"
  "customer_metrics example_db \<noteq> []"
  by (simp_all add: example_db_def example_customers_def customer_def)

lemma length_example_sales: "length (sales_transactions example_db) = 3"
  by (simp add: example_db_def example_sales_def)

lemma str_int_3: "str_int 3 = ''3''"
  by (simp add: str_int_def str_nat.simps digit_def)

lemma iso_jan: "isoformat (january 1) = ''2024-01-01''" "isoformat (january 31) = ''2024-01-31''"
  by (simp_all add: isoformat_def january_def zfill_def str_nat.simps digit_def)

lemma replicate_5: "replicate 5 c = [c, c, c, c, c]"
  by (simp add: eval_nat_numeral)

lemma stored_examples:
  "sqlite_datetime (at_hour (january 10) 9) = ''2024-01-10 09:00:00.000000''"
  "sqlite_datetime (at_hour (january 20) 14) = ''2024-01-20 14:00:00.000000''"
  "sqlite_datetime (at_hour (january 31) 10) = ''2024-01-31 10:00:00.000000''"
  by (simp_all add: sqlite_datetime_def at_hour_def isoformat_def january_def zfill_def
      str_nat.simps digit_def replicate_5)

lemma selected_january:
  "selected (where_clause (january 1) (january 31) None None) example_sales =
     [sale 1 ''P1'' ''Widget'' 2 100 (at_hour (january 10) 9) ''US'' ''online'',
      sale 2 ''P2'' ''Gadget'' 1 50 (at_hour (january 20) 14) ''US'' ''online'']"
  by (simp add: selected_def where_clause_def optional_condition_def example_sales_def
      holds_def column_text_def sale_def iso_jan stored_examples del: One_nat_def)

lemma valid_january: "1 \<le> n \<Longrightarrow> n \<le> 31 \<Longrightarrow> valid_date (january n)"
  by (simp add: valid_date_def january_def days_in_month_def)

lemma plain_None: "plain None"
  by (simp add: plain_def)

lemma plain_Books: "plain (Some ''Books'')"
  by (simp add: plain_def inert_def)

lemma no_faults_never: "\<not> no_faults k"
  by (simp add: no_faults_def)

lemma january_rows:
  "[sale 1 ''P1'' ''Widget'' 2 100 (at_hour (january 10) 9) ''US'' ''online'',
    sale 2 ''P2'' ''Gadget'' 1 50 (at_hour (january 20) 14) ''US'' ''online''] =
   selected (where_clause (january 1) (january 31) None None) (sales_transactions example_db)"
  by (simp only: example_db_def selected_january database.simps)

lemma iso_feb: "isoformat (february 1) = ''2024-02-01''"
  by (simp add: isoformat_def february_def zfill_def str_nat.simps digit_def)

lemma selected_until_february:
  "selected (where_clause (january 1) (february 1) None None) example_sales = example_sales"
  by (simp add: selected_def where_clause_def optional_condition_def example_sales_def
      holds_def column_text_def sale_def iso_jan iso_feb stored_examples del: One_nat_def)

lemma february_rows:
  "example_sales =
   selected (where_clause (january 1) (february 1) None None) (sales_transactions example_db)"
  by (simp only: example_db_def selected_until_february database.simps)

lemma example_totals:
  "sum_list (map total_amount example_sales) = 200" "length example_sales = 3"
  by (simp_all add: example_sales_def sale_def)

lemma int64_small: "int64 0" "int64 1" "int64 2" "int64 3"
  by (simp_all add: int64_def)


lemma example_top_products:
  "top_products_query example_sales =
   Inr [\<lparr>sold_product_name = ''Widget'', sold_total_quantity = 3, sold_total_revenue = 150\<rparr>,
        \<lparr>sold_product_name = ''Gadget'', sold_total_quantity = 1, sold_total_revenue = 50\<rparr>]"
  by (simp add: top_products_query_def group_by_def limit_def order_by_desc_def
      product_totals_def product_key_def example_sales_def sale_def sql_sum_int_def int64_small)

lemma january_top_products:
  "top_products_query
     [sale 1 ''P1'' ''Widget'' 2 100 (at_hour (january 10) 9) ''US'' ''online'',
      sale 2 ''P2'' ''Gadget'' 1 50 (at_hour (january 20) 14) ''US'' ''online''] =
   Inr [\<lparr>sold_product_name = ''Widget'', sold_total_quantity = 2, sold_total_revenue = 100\<rparr>,
        \<lparr>sold_product_name = ''Gadget'', sold_total_quantity = 1, sold_total_revenue = 50\<rparr>]"
  by (simp add: top_products_query_def group_by_def limit_def order_by_desc_def
      product_totals_def product_key_def sale_def sql_sum_int_def int64_small)

lemma example_category_performance:
  "dict_of_rows (category_query (sales_transactions example_db)) = [(''Electronics'', 200)]"
  by (simp add: example_db_def example_sales_def category_query_def revenue_by_def group_by_def
      order_by_desc_def dict_of_rows_def sale_def)

lemma example_inventory:
  "max_key [(''Electronics'', 200)] = Some ''Electronics''"
  "min_key [(''Electronics'', 200)] = Some ''Electronics''"
  by simp_all

lemma selected_all: "selected (optional_condition Col_category None) rows = rows"
  by (simp add: selected_def optional_condition_def)

lemma selected_books:
  "selected (optional_condition Col_category (Some ''Books'')) example_sales = []"
  by (simp add: selected_def optional_condition_def holds_def column_text_def example_sales_def
      sale_def)

lemma example_top_performing:
  "top_performing_query example_sales =
   Inr [\<lparr>perf_product_name = ''Widget'', perf_category = ''Electronics'', perf_total_sold = 3,
          perf_total_revenue = 150, perf_avg_price = 50\<rparr>,
        \<lparr>perf_product_name = ''Gadget'', perf_category = ''Electronics'', perf_total_sold = 1,
          perf_total_revenue = 50, perf_avg_price = 50\<rparr>]"
  by (simp add: top_performing_query_def group_by_def limit_def order_by_desc_def
      performance_totals_def performance_key_def example_sales_def sale_def sql_sum_int_def
      int64_small)

lemma top_performing_none: "top_performing_query [] = Inr []"
  by (simp add: top_performing_query_def group_by_def limit_def order_by_desc_def)

lemma example_total_products:
  "total_products_query (selected (optional_condition Col_category None)
      (sales_transactions example_db)) = 2"
  "total_products_query (selected (optional_condition Col_category (Some ''Books''))
      (sales_transactions example_db)) = 0"
  by (simp_all add: example_db_def example_sales_def total_products_query_def selected_def
      optional_condition_def holds_def column_text_def sale_def)

lemma example_product_response:
  "get_product_analytics None no_faults example_db =
     Response
       \<lparr>total_products = 2,
        top_performing_products =
          [\<lparr>perf_product_name = ''Widget'', perf_category = ''Electronics'', perf_total_sold = 3,
             perf_total_revenue = 150, perf_avg_price = 50\<rparr>,
           \<lparr>perf_product_name = ''Gadget'', perf_category = ''Electronics'', perf_total_sold = 1,
             perf_total_revenue = 50, perf_avg_price = 50\<rparr>],
        category_performance = [(''Electronics'', 200)],
        inventory_insights =
          \<lparr>total_categories = 1, most_profitable_category = Some ''Electronics'',
           least_profitable_category = Some ''Electronics''\<rparr>\<rparr>"
proof -
  have tops: "top_performing_query
      (selected (optional_condition Col_category None) (sales_transactions example_db)) =
     Inr [\<lparr>perf_product_name = ''Widget'', perf_category = ''Electronics'', perf_total_sold = 3,
          perf_total_revenue = 150, perf_avg_price = 50\<rparr>,
        \<lparr>perf_product_name = ''Gadget'', perf_category = ''Electronics'', perf_total_sold = 1,
          perf_total_revenue = 50, perf_avg_price = 50\<rparr>]"
    by (simp only: selected_all example_db_def database.simps example_top_performing)
  show ?thesis
    using product_analytics_returns [where fl = no_faults, OF plain_None no_faults_never
        no_faults_never no_faults_never refl refl tops]
    by (simp add: example_category_performance example_total_products example_inventory)
qed

lemma books_product_response:
  "get_product_analytics (Some ''Books'') no_faults example_db =
     Response
       \<lparr>total_products = 0,
        top_performing_products = [],
        category_performance = [(''Electronics'', 200)],
        inventory_insights =
          \<lparr>total_categories = 1, most_profitable_category = Some ''Electronics'',
           least_profitable_category = Some ''Electronics''\<rparr>\<rparr>"
proof -
  have tops: "top_performing_query
      (selected (optional_condition Col_category (Some ''Books'')) (sales_transactions example_db)) =
     Inr []"
    by (simp only: selected_books example_db_def database.simps top_performing_none)
  show ?thesis
    using product_analytics_returns [where fl = no_faults, OF plain_Books no_faults_never
        no_faults_never no_faults_never refl refl tops]
    by (simp add: example_category_performance example_total_products example_inventory)
qed

text \<open>
  The order among equal revenues, and a sum of quantities that does not fit 64 bits.
\<close>

lemma tied_category_performance:
  "category_query tied_sales = [(''B'', 50), (''A'', 50)]"
  by (simp add: tied_sales_def category_query_def revenue_by_def group_by_def order_by_desc_def
      sale_def)

lemma tied_top_products:
  "top_products_query tied_sales =
   Inr [\<lparr>sold_product_name = ''Gadget'', sold_total_quantity = 1, sold_total_revenue = 50\<rparr>,
        \<lparr>sold_product_name = ''Widget'', sold_total_quantity = 2, sold_total_revenue = 50\<rparr>]"
  by (simp add: tied_sales_def top_products_query_def group_by_def limit_def order_by_desc_def
      product_totals_def product_key_def sale_def sql_sum_int_def int64_small)

lemma heavy_quantities_overflow: "top_products_query heavy_sales = Inl OperationalError"
  by (simp add: heavy_sales_def top_products_query_def group_by_def product_totals_def
      product_key_def sale_def sql_sum_int_def int64_def)

lemma selected_heavy:
  "selected (where_clause (january 1) (january 31) None None) heavy_sales = heavy_sales"
  by (simp add: selected_def where_clause_def optional_condition_def heavy_sales_def
      holds_def column_text_def sale_def iso_jan stored_examples del: One_nat_def)

lemma heavy_sales_is_500:
  "get_sales_analytics (january 31) (Some (january 1)) (Some (january 31)) None None no_faults
     \<lparr>sales_transactions = heavy_sales, customer_metrics = []\<rparr> =
   HTTPException 500 ''Internal server error''"
  using sales_overflow [where fl = no_faults and today = "january 31" and x = OperationalError,
      OF date_window_given plain_None plain_None,
      of "january 1" "january 31" "\<lparr>sales_transactions = heavy_sales, customer_metrics = []\<rparr>"]
  by (simp add: selected_heavy heavy_quantities_overflow del: One_nat_def)

lemma specified_january:
  "specified_rows (january 1) (january 31) None None example_db = example_sales"
  by (simp add: specified_rows_def specified_filter_def example_db_def example_sales_def sale_def
      at_hour_def date_le_def date_less_def january_def)

lemma widget_rows:
  "filter (\<lambda>x. product_key x = (''Widget'', ''P1'')) example_sales =
     [sale 1 ''P1'' ''Widget'' 2 100 (at_hour (january 10) 9) ''US'' ''online'',
      sale 3 ''P1'' ''Widget'' 1 50 (at_hour (january 31) 10) ''EU'' ''store'']"
  by (simp add: example_sales_def product_key_def sale_def)

lemma minus_30_example: "minus_days (january 31) 30 = Inr (january 1)"
  by (simp add: eval_nat_numeral yesterday_def january_def)

lemma mens_rejected:
  "rejected (map (\<lambda>cnd. snd (snd cnd)) (optional_condition Col_category (Some ''Men's'')))"
  by (simp add: optional_condition_def inert_def rejected_def quotes_def wordy_def)

lemma obrien_rejected:
  "rejected (map (\<lambda>cnd. snd (snd cnd))
     (where_clause (january 1) (january 31) (Some ''O'Brien'') None))"
  by (simp add: where_clause_def optional_condition_def inert_def rejected_def quotes_def
      wordy_def iso_jan del: One_nat_def)

section \<open>The health check\<close>

text \<open>
  C7. The health check never raises: whether the round-trip to the storage layer succeeds
  or fails (\<open>fl 0\<close>), the endpoint answers with a response. Its status is \<open>healthy\<close>
  exactly when the round-trip succeeds; a failure is reported as \<open>unhealthy\<close> in the
  body; and the answer is the same for any two databases.
\<close>

theorem health_check_never_raises:
  "\<exists>r. health_check utcnow env fl db = Response r \<and>
       (status r = ''healthy'' \<longleftrightarrow> \<not> fl 0) \<and>
       (fl 0 \<longrightarrow> status r = ''unhealthy'' \<and> database_status r = ''unhealthy'') \<and>
       health_check utcnow env fl db' = health_check utcnow env fl db"
  by (simp add: health_check_def storage_call_def Let_def)

theorem health_check_witness:
  "\<exists>r. health_check (at_hour (january 31) 10) None (\<lambda>k. True) example_db = Response r \<and>
       status r = ''unhealthy'' \<and> database_status r = ''unhealthy''"
  using health_check_never_raises [of "at_hour (january 31) 10" None "\<lambda>k. True" example_db empty_db]
  by auto

section \<open>Sales analytics\<close>

text \<open>
  The revenue statement on the rows it is given. For every database and every request
  whose date window is defined, whose region and channel filters are omitted or inert,
  whose four statements succeed and whose quantities do not overflow, the endpoint answers;
  \<open>total_revenue\<close> is the sum of \<open>total_amount\<close> over the rows that the \<open>WHERE\<close>
  clause of the request selects, and 0 when there is none; \<open>total_transactions\<close> is their
  number and \<open>avg_transaction_value\<close> their mean (0 if none). Which rows those are is
  the subject of \<open>where_clause_selects\<close> below.
\<close>

lemma selected_rows_totals:
  assumes "date_window today start_date end_date = Inr (s, e)"
    and "plain rp" and "plain cp"
    and "\<not> fl 0" and "\<not> fl 1" and "\<not> fl 2" and "\<not> fl 3"
    and "rows = selected (where_clause s e rp cp) (sales_transactions db)"
    and "\<forall>r \<in> set rows. 0 \<le> quantity r" and "sum_list (map quantity rows) < 2 ^ 63"
  shows "\<exists>r. get_sales_analytics today start_date end_date rp cp fl db = Response r \<and>
       total_revenue r = sum_list (map total_amount rows) \<and>
       (rows = [] \<longrightarrow> total_revenue r = 0) \<and>
       total_transactions r = int (length rows) \<and>
       avg_transaction_value r =
         (if rows = [] then 0 else sum_list (map total_amount rows) / real (length rows))"
proof -
  obtain tops where "top_products_query rows = Inr tops"
    using top_products_query_total [OF assms(9,10)] by blast
  then show ?thesis
    by (simp add: sales_analytics_returns [OF assms(1-8)])
qed

lemma example_quantities:
  "\<forall>r \<in> set example_sales. 0 \<le> quantity r" "sum_list (map quantity example_sales) < 2 ^ 63"
  by (simp_all add: example_sales_def sale_def)

lemma selected_rows_totals_example:
  "\<exists>r. get_sales_analytics (january 31) (Some (january 1)) (Some (february 1)) None None
          no_faults example_db = Response r \<and>
       total_revenue r = 200 \<and> total_transactions r = 3 \<and> avg_transaction_value r = 200 / 3"
  using selected_rows_totals [where fl = no_faults and today = "january 31",
      OF date_window_given plain_None plain_None no_faults_never no_faults_never
      no_faults_never no_faults_never february_rows example_quantities]
  by (auto simp add: example_totals)

text \<open>
  C1, run on the code. The claim has the three totals computed over exactly the rows that
  satisfy the filters of the request. For the request \<open>start_date = 2024-01-01\<close>,
  \<open>end_date = 2024-01-31\<close>, no region and no channel, all three rows of the small
  database satisfy the filters as the specification words them: their amounts sum to 200,
  and there are 3 of them. The endpoint answers with a revenue of 150, 2 transactions and a
  mean of 75: the row sold on 2024-01-31 at 10:00 is not among the rows its statement
  selects.
\<close>

theorem revenue_misses_end_date:
  "\<exists>r. get_sales_analytics (january 31) (Some (january 1)) (Some (january 31)) None None
          no_faults example_db = Response r \<and>
       total_revenue r = 150 \<and> total_transactions r = 2 \<and> avg_transaction_value r = 75 \<and>
       sum_list (map total_amount
         (specified_rows (january 1) (january 31) None None example_db)) = 200 \<and>
       int (length (specified_rows (january 1) (january 31) None None example_db)) = 3"
proof -
  have "\<exists>r. get_sales_analytics (january 31) (Some (january 1)) (Some (january 31)) None None
          no_faults example_db = Response r \<and>
        total_revenue r = 150 \<and> total_transactions r = 2 \<and> avg_transaction_value r = 75"
    using sales_analytics_returns [where fl = no_faults and today = "january 31",
        OF date_window_given plain_None plain_None no_faults_never no_faults_never
        no_faults_never no_faults_never january_rows january_top_products]
    by (simp add: sale_def)
  moreover have "sum_list (map total_amount
         (specified_rows (january 1) (january 31) None None example_db)) = 200"
    "int (length (specified_rows (january 1) (january 31) None None example_db)) = 3"
    unfolding specified_january by (simp_all add: example_totals)
  ultimately show ?thesis by blast
qed

text \<open>
  C2, run on the code. The claim has a row in the filtered set when its
  \<open>transaction_date\<close> lies in \<open>[start_date, end_date]\<close>, both ends included. The third
  row of the small database was sold on 2024-01-31 at 10:00, which lies in
  \<open>[2024-01-01, 2024-01-31]\<close>. The statement compares the stored text
  \<open>2024-01-31 10:00:00.000000\<close> with the literal \<open>'2024-01-31'\<close>; the longer text is the
  greater, so the row is not selected, and the endpoint reports 2 transactions and a
  revenue of 150 where the claim has 3 and 200.
\<close>

theorem end_date_rows_dropped:
  "sale 3 ''P1'' ''Widget'' 1 50 (at_hour (january 31) 10) ''EU'' ''store''
     \<in> set (sales_transactions example_db) \<and>
   date_le (january 1) (on_date (transaction_date
     (sale 3 ''P1'' ''Widget'' 1 50 (at_hour (january 31) 10) ''EU'' ''store''))) \<and>
   date_le (on_date (transaction_date
     (sale 3 ''P1'' ''Widget'' 1 50 (at_hour (january 31) 10) ''EU'' ''store''))) (january 31) \<and>
   sale 3 ''P1'' ''Widget'' 1 50 (at_hour (january 31) 10) ''EU'' ''store''
     \<notin> set (selected (where_clause (january 1) (january 31) None None)
          (sales_transactions example_db)) \<and>
   (\<exists>r. get_sales_analytics (january 31) (Some (january 1)) (Some (january 31)) None None
          no_faults example_db = Response r \<and>
        total_transactions r = 2 \<and> total_revenue r = 150)"
proof -
  have "\<exists>r. get_sales_analytics (january 31) (Some (january 1)) (Some (january 31)) None None
          no_faults example_db = Response r \<and>
        total_transactions r = 2 \<and> total_revenue r = 150"
    using sales_analytics_returns [where fl = no_faults and today = "january 31",
        OF date_window_given plain_None plain_None no_faults_never no_faults_never
        no_faults_never no_faults_never january_rows january_top_products]
    by (simp add: sale_def)
  moreover have "sale 3 ''P1'' ''Widget'' 1 50 (at_hour (january 31) 10) ''EU'' ''store''
     \<notin> set (selected (where_clause (january 1) (january 31) None None)
          (sales_transactions example_db))"
    unfolding january_rows [symmetric] by (simp add: sale_def)
  moreover have "sale 3 ''P1'' ''Widget'' 1 50 (at_hour (january 31) 10) ''EU'' ''store''
     \<in> set (sales_transactions example_db)"
    by (simp add: example_db_def example_sales_def)
  moreover have "date_le (january 1) (on_date (transaction_date
     (sale 3 ''P1'' ''Widget'' 1 50 (at_hour (january 31) 10) ''EU'' ''store'')))"
    "date_le (on_date (transaction_date
     (sale 3 ''P1'' ''Widget'' 1 50 (at_hour (january 31) 10) ''EU'' ''store''))) (january 31)"
    by (simp_all add: sale_def at_hour_def date_le_def date_less_def january_def)
  ultimately show ?thesis by blast
qed



text \<open>
  The ranking statement on the rows it is given. Under the conditions of
  \<open>selected_rows_totals\<close>, \<open>top_selling_products\<close> has at most 10 entries. They are the
  entries of distinct product identities \<open>(product_name, product_id)\<close> found among the
  rows the \<open>WHERE\<close> clause selects; each carries the name, the quantity sold and the
  revenue of its product over those rows; the list is sorted by revenue, largest first; it
  holds every product when there are at most 10, and no product left out has a larger
  revenue than one listed.
\<close>

lemma selected_rows_ranked:
  assumes "date_window today start_date end_date = Inr (s, e)"
    and "plain rp" and "plain cp"
    and "\<not> fl 0" and "\<not> fl 1" and "\<not> fl 2" and "\<not> fl 3"
    and "rows = selected (where_clause s e rp cp) (sales_transactions db)"
    and "\<forall>r \<in> set rows. 0 \<le> quantity r" and "sum_list (map quantity rows) < 2 ^ 63"
  shows "\<exists>r ks. get_sales_analytics today start_date end_date rp cp fl db = Response r \<and>
       top_selling_products r =
         map (\<lambda>k. \<lparr>sold_product_name = fst k,
                   sold_total_quantity =
                     sum_list (map quantity (filter (\<lambda>x. product_key x = k) rows)),
                   sold_total_revenue =
                     sum_list (map total_amount (filter (\<lambda>x. product_key x = k) rows))\<rparr>) ks \<and>
       distinct ks \<and> set ks \<subseteq> product_key ` set rows \<and>
       length ks = min 10 (card (product_key ` set rows)) \<and>
       length (top_selling_products r) \<le> 10 \<and>
       sorted_wrt (\<lambda>a b. sold_total_revenue b \<le> sold_total_revenue a) (top_selling_products r) \<and>
       (\<forall>k \<in> product_key ` set rows - set ks. \<forall>t \<in> set (top_selling_products r).
          sum_list (map total_amount (filter (\<lambda>x. product_key x = k) rows)) \<le> sold_total_revenue t)"
proof -
  let ?h = "\<lambda>k. \<lparr>sold_product_name = fst k,
                   sold_total_quantity =
                     sum_list (map quantity (filter (\<lambda>x. product_key x = k) rows)),
                   sold_total_revenue =
                     sum_list (map total_amount (filter (\<lambda>x. product_key x = k) rows))\<rparr>"
  let ?keys = "sort (remdups (map product_key rows))"
  let ?ks = "take 10 (sort_key (\<lambda>k. - sold_total_revenue (?h k)) ?keys)"
  obtain tops where tq: "top_products_query rows = Inr tops"
    using top_products_query_total [OF assms(9,10)] by blast
  have d: "distinct ?keys" by simp
  note t = top_by_desc [OF d, where n = 10 and f = sold_total_revenue and h = ?h]
  have tops: "tops = map ?h ?ks"
    using top_products_query_Inr [OF tq] t(1) by simp
  let ?r = "\<lparr>total_revenue = sum_list (map total_amount rows),
        total_transactions = int (length rows),
        avg_transaction_value =
          (if rows = [] then 0 else sum_list (map total_amount rows) / real (length rows)),
        top_selling_products = tops,
        revenue_by_region = dict_of_rows (revenue_by region rows),
        revenue_by_channel = dict_of_rows (revenue_by channel rows)\<rparr>"
  have 1: "get_sales_analytics today start_date end_date rp cp fl db = Response ?r"
    by (rule sales_analytics_returns [OF assms(1-8) tq])
  have 2: "top_selling_products ?r = map ?h ?ks"
    using tops by simp
  have 3: "distinct ?ks" by (rule t(2))
  have 4: "set ?ks \<subseteq> product_key ` set rows" using t(3) by simp
  have 5: "length ?ks = min 10 (card (product_key ` set rows))"
    using t(4) by (simp add: length_remdups_card_conv)
  have 6: "length (top_selling_products ?r) \<le> 10"
    unfolding 2 by simp
  have 7: "sorted_wrt (\<lambda>a b. sold_total_revenue b \<le> sold_total_revenue a) (top_selling_products ?r)"
    unfolding 2 by (rule t(5))
  have 8: "\<forall>k \<in> product_key ` set rows - set ?ks. \<forall>t \<in> set (top_selling_products ?r).
          sum_list (map total_amount (filter (\<lambda>x. product_key x = k) rows)) \<le> sold_total_revenue t"
    unfolding 2 using t(6) by simp
  show ?thesis
    using 1 2 3 4 5 6 7 8 by blast
qed

lemma selected_rows_ranked_example:
  "\<exists>r. get_sales_analytics (january 31) (Some (january 1)) (Some (february 1)) None None
          no_faults example_db = Response r \<and>
       top_selling_products r =
         [\<lparr>sold_product_name = ''Widget'', sold_total_quantity = 3, sold_total_revenue = 150\<rparr>,
          \<lparr>sold_product_name = ''Gadget'', sold_total_quantity = 1, sold_total_revenue = 50\<rparr>] \<and>
       sorted_wrt (\<lambda>a b. sold_total_revenue b \<le> sold_total_revenue a) (top_selling_products r)"
proof -
  obtain r where r: "get_sales_analytics (january 31) (Some (january 1)) (Some (february 1))
        None None no_faults example_db = Response r"
      "sorted_wrt (\<lambda>a b. sold_total_revenue b \<le> sold_total_revenue a) (top_selling_products r)"
    using selected_rows_ranked [where fl = no_faults and today = "january 31",
        OF date_window_given plain_None plain_None no_faults_never
        no_faults_never no_faults_never no_faults_never february_rows example_quantities]
    by (elim exE conjE) (rule that, assumption+)
  have "top_selling_products r =
         [\<lparr>sold_product_name = ''Widget'', sold_total_quantity = 3, sold_total_revenue = 150\<rparr>,
          \<lparr>sold_product_name = ''Gadget'', sold_total_quantity = 1, sold_total_revenue = 50\<rparr>]"
    using r(1) sales_analytics_returns [where fl = no_faults and today = "january 31",
        OF date_window_given plain_None plain_None no_faults_never
        no_faults_never no_faults_never no_faults_never february_rows example_top_products]
    by simp
  then show ?thesis using r by blast
qed

text \<open>
  C6, run on the code. The claim has each entry of \<open>top_selling_products\<close> carry the
  quantity and the revenue of its product over the filtered rows. For the request
  \<open>start_date = 2024-01-01\<close>, \<open>end_date = 2024-01-31\<close>, no region and no channel, the
  rows of the product Widget (\<open>P1\<close>) that satisfy the filters as the specification words
  them are the sales of 2024-01-10 and of 2024-01-31: a quantity of 3 and a revenue of 150.
  The endpoint lists Widget with a quantity of 2 and a revenue of 100: the sale of
  2024-01-31 at 10:00 is not among the rows its statement selects.
\<close>

theorem top_products_miss_end_date:
  "\<exists>r. get_sales_analytics (january 31) (Some (january 1)) (Some (january 31)) None None
          no_faults example_db = Response r \<and>
       top_selling_products r =
         [\<lparr>sold_product_name = ''Widget'', sold_total_quantity = 2, sold_total_revenue = 100\<rparr>,
          \<lparr>sold_product_name = ''Gadget'', sold_total_quantity = 1, sold_total_revenue = 50\<rparr>] \<and>
       sum_list (map quantity (filter (\<lambda>x. product_key x = (''Widget'', ''P1''))
         (specified_rows (january 1) (january 31) None None example_db))) = 3 \<and>
       sum_list (map total_amount (filter (\<lambda>x. product_key x = (''Widget'', ''P1''))
         (specified_rows (january 1) (january 31) None None example_db))) = 150"
proof -
  have "\<exists>r. get_sales_analytics (january 31) (Some (january 1)) (Some (january 31)) None None
          no_faults example_db = Response r \<and>
       top_selling_products r =
         [\<lparr>sold_product_name = ''Widget'', sold_total_quantity = 2, sold_total_revenue = 100\<rparr>,
          \<lparr>sold_product_name = ''Gadget'', sold_total_quantity = 1, sold_total_revenue = 50\<rparr>]"
    using sales_analytics_returns [where fl = no_faults and today = "january 31",
        OF date_window_given plain_None plain_None no_faults_never no_faults_never
        no_faults_never no_faults_never january_rows january_top_products]
    by simp
  moreover have "sum_list (map quantity (filter (\<lambda>x. product_key x = (''Widget'', ''P1''))
         (specified_rows (january 1) (january 31) None None example_db))) = 3"
    "sum_list (map total_amount (filter (\<lambda>x. product_key x = (''Widget'', ''P1''))
         (specified_rows (january 1) (january 31) None None example_db))) = 150"
    unfolding specified_january widget_rows by (simp_all add: sale_def)
  ultimately show ?thesis by blast
qed

text \<open>
  Which rows the \<open>WHERE\<close> clause of the sales statements selects: those dated on or
  after \<open>start_date\<close> and before \<open>end_date\<close>, whose region and channel equal the
  filters that are given and not empty.
\<close>

theorem where_clause_selects:
  assumes "valid_date s" and "valid_date e" and "valid_date (on_date (transaction_date r))"
  shows "r \<in> set (selected (where_clause s e rp cp) rows) \<longleftrightarrow>
     r \<in> set rows \<and>
     date_le s (on_date (transaction_date r)) \<and> date_less (on_date (transaction_date r)) e \<and>
     matches rp (region r) \<and> matches cp (channel r)"
  using holds_where_clause [OF assms] by (simp add: selected_def)

theorem where_clause_selects_witness:
  "sale 1 ''P1'' ''Widget'' 2 100 (at_hour (january 10) 9) ''US'' ''online''
     \<in> set (selected (where_clause (january 1) (january 31) (Some ''US'') None) example_sales) \<and>
   sale 3 ''P1'' ''Widget'' 1 50 (at_hour (january 31) 10) ''EU'' ''store''
     \<notin> set (selected (where_clause (january 1) (january 31) None None) example_sales)"
proof -
  have v: "valid_date (january 1)" "valid_date (january 31)" "valid_date (january 10)"
    by (simp_all add: valid_january)
  have v1: "valid_date (on_date (transaction_date
      (sale 1 ''P1'' ''Widget'' 2 100 (at_hour (january 10) 9) ''US'' ''online'')))"
    using v(3) by (simp add: sale_def at_hour_def)
  have v3: "valid_date (on_date (transaction_date
      (sale 3 ''P1'' ''Widget'' 1 50 (at_hour (january 31) 10) ''EU'' ''store'')))"
    using v(2) by (simp add: sale_def at_hour_def)
  show ?thesis
    using where_clause_selects [OF v(1) v(2) v1, of "Some ''US''" None example_sales]
      where_clause_selects [OF v(1) v(2) v3, of None None example_sales]
    by (simp add: example_sales_def sale_def at_hour_def january_def date_le_def date_less_def
        matches_def)
qed

text \<open>
  The default window: with both dates omitted, \<open>end_date\<close> is today and
  \<open>start_date\<close> is thirty days before it.
\<close>

theorem default_window:
  assumes "valid_date today" and "1 < year today"
  shows "\<exists>s. date_window today None None = Inr (s, today) \<and>
       minus_days today 30 = Inr s \<and> valid_date s"
proof -
  have "30 < 336 * (year today - 1) + 28 * (month today - 1) + day today"
    using assms(2) by linarith
  then obtain s where "minus_days today 30 = Inr s" "valid_date s"
    using minus_days_total [OF assms(1), of 30] by blast
  then show ?thesis by (simp add: date_window_def)
qed

theorem default_window_witness:
  "date_window (january 31) None None = Inr (january 1, january 31)"
proof -
  have "valid_date (january 31)" by (simp add: valid_january)
  moreover have "1 < year (january 31)" by (simp add: january_def)
  ultimately obtain s where "date_window (january 31) None None = Inr (s, january 31)"
    and "minus_days (january 31) 30 = Inr s"
    using default_window [of "january 31"] by blast
  then show ?thesis by (simp add: minus_30_example)
qed

section \<open>Customer analytics\<close>

text \<open>
  C4. The customer aggregation does not depend on its date parameters: for one database
  (and one behaviour of the storage layer) any two choices of \<open>start_date\<close> and
  \<open>end_date\<close>, given or omitted, yield the same answer. When its statements succeed
  the answer is a response computed from the whole \<open>customer_metrics\<close> table: the
  count of its rows, the count of the active ones, the mean lifetime value of all rows
  and the first ten of all rows by lifetime value.
\<close>

theorem customer_dates_not_applied:
  "get_customer_analytics start_date end_date fl db =
     get_customer_analytics start_date' end_date' fl db \<and>
   (\<not> fl 0 \<and> \<not> fl 1 \<and> \<not> fl 2 \<and> \<not> fl 3 \<longrightarrow>
      (\<exists>r. get_customer_analytics start_date end_date fl db = Response r \<and>
         total_customers r = int (length (customer_metrics db)) \<and>
         active_customers r = int (length (filter is_active (customer_metrics db))) \<and>
         avg_customer_lifetime_value r =
           (if customer_metrics db = [] then 0
            else sum_list (map customer_lifetime_value (customer_metrics db))
                 / real (length (customer_metrics db))) \<and>
         top_customers r = top_customers_query (customer_metrics db)))"
  by (simp add: get_customer_analytics_def customer_analytics_def execute_nil Let_def
      retention_rate_def truediv_def sql_count_def float_or_0_avg del: One_nat_def)

theorem customer_dates_not_applied_witness:
  "\<exists>r. get_customer_analytics None None no_faults example_db = Response r \<and>
       get_customer_analytics (Some (january 1)) (Some (january 31)) no_faults example_db =
         Response r \<and>
       total_customers r = 3 \<and> avg_customer_lifetime_value r = 20"
proof -
  note t = customer_dates_not_applied [of None None no_faults example_db "Some (january 1)"
      "Some (january 31)"]
  have same: "get_customer_analytics None None no_faults example_db =
      get_customer_analytics (Some (january 1)) (Some (january 31)) no_faults example_db"
    using t by (rule conjunct1)
  obtain r where r: "get_customer_analytics None None no_faults example_db = Response r"
    "total_customers r = int (length (customer_metrics example_db))"
    "avg_customer_lifetime_value r =
       (if customer_metrics example_db = [] then 0
        else sum_list (map customer_lifetime_value (customer_metrics example_db))
             / real (length (customer_metrics example_db)))"
    using t no_faults_never by blast
  have "total_customers r = 3" "avg_customer_lifetime_value r = 20"
    using r(2,3) by (simp_all add: length_example_customers example_clv)
  then show ?thesis using r(1) same by auto
qed

text \<open>
  C5. When the four statements of the customer aggregation succeed, the endpoint answers
  with a response whose counts are those of the whole \<open>customer_metrics\<close> table and whose
  \<open>customer_retention_rate\<close> is \<open>active_customers / total_customers * 100\<close> when
  \<open>total_customers > 0\<close> and 0 otherwise. On an empty table the rate is 0, and the
  division never raises \<open>ZeroDivisionError\<close>.
\<close>

theorem retention_rate_guarded:
  assumes "\<not> fl 0" and "\<not> fl 1" and "\<not> fl 2" and "\<not> fl 3"
  shows "\<exists>r. get_customer_analytics start_date end_date fl db = Response r \<and>
       total_customers r = int (length (customer_metrics db)) \<and>
       active_customers r = int (length (filter is_active (customer_metrics db))) \<and>
       customer_retention_rate r =
         (if 0 < total_customers r
          then real_of_int (active_customers r) / real_of_int (total_customers r) * 100
          else 0) \<and>
       (customer_metrics db = [] \<longrightarrow> customer_retention_rate r = 0) \<and>
       retention_rate (active_customers r) (total_customers r) \<noteq> Inl ZeroDivisionError"
  using assms
  by (simp add: get_customer_analytics_def customer_analytics_def execute_nil Let_def
      retention_rate_def truediv_def sql_count_def)

theorem retention_rate_witness:
  "\<exists>r. get_customer_analytics None None no_faults example_db = Response r \<and>
       total_customers r = 3 \<and> active_customers r = 2 \<and> customer_retention_rate r = 200 / 3"
  using retention_rate_guarded [of no_faults None None example_db]
  by (auto simp add: no_faults_def length_example_customers)

section \<open>Product analytics\<close>

text \<open>
  The statement by category has no \<open>WHERE\<close> clause. Whenever two requests to the product
  aggregation on one database are answered, whatever their \<open>category\<close> parameters and
  whatever the storage layer does, their \<open>category_performance\<close> and their
  \<open>inventory_insights\<close> are equal.
\<close>

lemma category_fields_agree:
  assumes "get_product_analytics cat fl db = Response r"
    and "get_product_analytics cat' fl' db = Response r'"
  shows "category_performance r = category_performance r' \<and>
     inventory_insights r = inventory_insights r'"
  using product_response_fields [OF assms(1)] product_response_fields [OF assms(2)] by simp

text \<open>
  The other two fields honour the filter. A request with an omitted or inert category,
  whose three statements succeed and whose quantities do not overflow, is answered.
  \<open>total_products\<close> is the number of distinct \<open>product_id\<close> among the rows of the
  category (all rows when the category is omitted or empty). \<open>top_performing_products\<close>
  has one entry for each of at most 10 distinct keys \<open>(product_id, product_name, category)\<close>
  of those rows, with the sums and the mean price over the rows of the key, sorted by
  revenue, largest first; every entry is of the category asked for.
\<close>

lemma selected_category:
  "r \<in> set (selected (optional_condition Col_category cat) rows) \<longleftrightarrow>
     r \<in> set rows \<and> matches cat (category r)"
  by (auto simp add: selected_def optional_condition_def matches_def holds_def column_text_def
      split: option.splits)

lemma category_filter_honoured:
  assumes "plain cat" and "\<not> fl 0" and "\<not> fl 1" and "\<not> fl 2"
    and rows: "rows = selected (optional_condition Col_category cat) (sales_transactions db)"
    and "\<forall>r \<in> set rows. 0 \<le> quantity r" and "sum_list (map quantity rows) < 2 ^ 63"
  shows "\<exists>r ks. get_product_analytics cat fl db = Response r \<and>
       category_performance r = dict_of_rows (category_query (sales_transactions db)) \<and>
       total_products r = int (card (product_id ` set rows)) \<and>
       top_performing_products r =
         map (\<lambda>k. \<lparr>perf_product_name = fst (snd k),
                   perf_category = snd (snd k),
                   perf_total_sold =
                     sum_list (map quantity (filter (\<lambda>x. performance_key x = k) rows)),
                   perf_total_revenue =
                     sum_list (map total_amount (filter (\<lambda>x. performance_key x = k) rows)),
                   perf_avg_price =
                     sum_list (map unit_price (filter (\<lambda>x. performance_key x = k) rows))
                     / real (length (filter (\<lambda>x. performance_key x = k) rows))\<rparr>) ks \<and>
       distinct ks \<and> set ks \<subseteq> performance_key ` set rows \<and>
       length ks = min 10 (card (performance_key ` set rows)) \<and>
       sorted_wrt (\<lambda>a b. perf_total_revenue b \<le> perf_total_revenue a)
         (top_performing_products r) \<and>
       (\<forall>t \<in> set (top_performing_products r). matches cat (perf_category t))"
proof -
  let ?h = "\<lambda>k. \<lparr>perf_product_name = fst (snd k),
                   perf_category = snd (snd k),
                   perf_total_sold =
                     sum_list (map quantity (filter (\<lambda>x. performance_key x = k) rows)),
                   perf_total_revenue =
                     sum_list (map total_amount (filter (\<lambda>x. performance_key x = k) rows)),
                   perf_avg_price =
                     sum_list (map unit_price (filter (\<lambda>x. performance_key x = k) rows))
                     / real (length (filter (\<lambda>x. performance_key x = k) rows))\<rparr>"
  let ?keys = "sort (remdups (map performance_key rows))"
  let ?ks = "take 10 (sort_key (\<lambda>k. - perf_total_revenue (?h k)) ?keys)"
  let ?performance = "dict_of_rows (category_query (sales_transactions db))"
  obtain tops where tq: "top_performing_query rows = Inr tops"
    using top_performing_query_total [OF assms(6,7)] by blast
  have d: "distinct ?keys" by simp
  note t = top_by_desc [OF d, where n = 10 and f = perf_total_revenue and h = ?h]
  have tops: "tops = map ?h ?ks"
    using top_performing_query_Inr [OF tq] t(1) by simp
  let ?r = "\<lparr>total_products = total_products_query rows,
        top_performing_products = tops,
        category_performance = ?performance,
        inventory_insights =
          \<lparr>total_categories = length ?performance,
           most_profitable_category = max_key ?performance,
           least_profitable_category = min_key ?performance\<rparr>\<rparr>"
  have 1: "get_product_analytics cat fl db = Response ?r"
    by (rule product_analytics_returns [OF assms(1-4) rows refl tq])
  have 2: "category_performance ?r = ?performance" by simp
  have 3: "total_products ?r = int (card (product_id ` set rows))"
    by (simp add: total_products_query_def length_remdups_card_conv)
  have 4: "top_performing_products ?r = map ?h ?ks"
    using tops by simp
  have 5: "distinct ?ks" by (rule t(2))
  have 6: "set ?ks \<subseteq> performance_key ` set rows" using t(3) by simp
  have 7: "length ?ks = min 10 (card (performance_key ` set rows))"
    using t(4) by (simp add: length_remdups_card_conv)
  have 8: "sorted_wrt (\<lambda>a b. perf_total_revenue b \<le> perf_total_revenue a)
      (top_performing_products ?r)"
    unfolding 4 by (rule t(5))
  have 9: "\<forall>t \<in> set (top_performing_products ?r). matches cat (perf_category t)"
  proof
    fix t assume "t \<in> set (top_performing_products ?r)"
    then obtain k where k: "k \<in> set ?ks" "t = ?h k" unfolding 4 by auto
    then obtain x where x: "x \<in> set rows" "k = performance_key x" using 6 by auto
    have "matches cat (category x)"
      using x(1) unfolding rows selected_category by simp
    then show "matches cat (perf_category t)"
      using k(2) x(2) by (simp add: performance_key_def)
  qed
  show ?thesis
    using 1 2 3 4 5 6 7 8 9 by blast
qed

lemma category_filter_honoured_example:
  "\<exists>r r'. get_product_analytics None no_faults example_db = Response r \<and>
     get_product_analytics (Some ''Books'') no_faults example_db = Response r' \<and>
     category_performance r = category_performance r' \<and>
     inventory_insights r = inventory_insights r' \<and>
     total_products r = 2 \<and> total_products r' = 0 \<and>
     length (top_performing_products r) = 2 \<and> top_performing_products r' = []"
  by (simp add: example_product_response books_product_response)

text \<open>
  C10, run on the code. The claim has any two choices of the \<open>category\<close> parameter
  return the same \<open>category_performance\<close> and the same \<open>inventory_insights\<close>. With the
  parameter omitted the endpoint answers with the revenue by category of the small database.
  With \<open>category = Men's\<close> the first statement reads
  \<open>... WHERE category = 'Men's'\<close>: the apostrophe ends the literal early, the engine
  rejects the statement, and the caller gets the error 500 in place of the two fields.
\<close>

theorem category_with_apostrophe_refused:
  "get_product_analytics None no_faults example_db =
     Response
       \<lparr>total_products = 2,
        top_performing_products =
          [\<lparr>perf_product_name = ''Widget'', perf_category = ''Electronics'', perf_total_sold = 3,
             perf_total_revenue = 150, perf_avg_price = 50\<rparr>,
           \<lparr>perf_product_name = ''Gadget'', perf_category = ''Electronics'', perf_total_sold = 1,
             perf_total_revenue = 50, perf_avg_price = 50\<rparr>],
        category_performance = [(''Electronics'', 200)],
        inventory_insights =
          \<lparr>total_categories = 1, most_profitable_category = Some ''Electronics'',
           least_profitable_category = Some ''Electronics''\<rparr>\<rparr> \<and>
   get_product_analytics (Some ''Men's'') no_faults example_db =
     HTTPException 500 ''Internal server error''"
  using example_product_response product_rejected [OF mens_rejected, of no_faults example_db]
  by simp

section \<open>Storage failures\<close>

text \<open>
  C8. In each of the three analytics endpoints, when one of the statements sent to the
  storage layer raises, the caller gets the \<open>HTTPException\<close> with status 500 and the
  detail \<open>Internal server error\<close>, and nothing else: no response with partial
  results. That holds when the storage layer fails on a statement (\<open>fl k\<close>) and when
  the engine rejects the statement, as it does for a filter with an apostrophe.
\<close>

theorem storage_failure_is_500:
  "(plain rp \<and> plain cp \<and> (fl 0 \<or> fl 1 \<or> fl 2 \<or> fl 3) \<longrightarrow>
      get_sales_analytics today start_date end_date rp cp fl db =
        HTTPException 500 ''Internal server error'') \<and>
   (fl 0 \<or> fl 1 \<or> fl 2 \<or> fl 3 \<longrightarrow>
      get_customer_analytics start_date end_date fl db =
        HTTPException 500 ''Internal server error'') \<and>
   (plain cat \<and> (fl 0 \<or> fl 1 \<or> fl 2) \<longrightarrow>
      get_product_analytics cat fl db = HTTPException 500 ''Internal server error'') \<and>
   (date_window today start_date end_date = Inr (s, e) \<and>
    rejected (map (\<lambda>cnd. snd (snd cnd)) (where_clause s e rp cp)) \<longrightarrow>
      get_sales_analytics today start_date end_date rp cp fl db =
        HTTPException 500 ''Internal server error'') \<and>
   (rejected (map (\<lambda>cnd. snd (snd cnd)) (optional_condition Col_category cat)) \<longrightarrow>
      get_product_analytics cat fl db = HTTPException 500 ''Internal server error'')"
  using sales_fault [of rp cp fl today start_date end_date db]
    customer_fault [of fl start_date end_date db] product_fault [of cat fl db]
    sales_rejected [of today start_date end_date s e rp cp fl db]
    product_rejected [of cat fl db]
  by blast

theorem storage_failure_witness:
  "get_sales_analytics (january 31) None None None None (\<lambda>k. k = 2) example_db =
      HTTPException 500 ''Internal server error'' \<and>
   get_customer_analytics None None (\<lambda>k. k = 2) example_db =
      HTTPException 500 ''Internal server error'' \<and>
   get_product_analytics None (\<lambda>k. k = 2) example_db =
      HTTPException 500 ''Internal server error'' \<and>
   get_sales_analytics (january 31) (Some (january 1)) (Some (january 31)) (Some ''O'Brien'') None
      no_faults example_db = HTTPException 500 ''Internal server error'' \<and>
   get_product_analytics (Some ''Men's'') no_faults example_db =
      HTTPException 500 ''Internal server error''"
  using storage_failure_is_500 [of None None "\<lambda>k. k = 2" "january 31" None None example_db None]
    storage_failure_is_500 [of "Some ''O'Brien''" None no_faults "january 31" "Some (january 1)"
      "Some (january 31)" example_db "Some ''Men's''" "january 1" "january 31"]
  by (simp add: plain_None date_window_given mens_rejected obrien_rejected del: One_nat_def)

section \<open>Seeding\<close>

text \<open>
  C9. \<open>POST /api/v1/data/seed\<close> leaves the database as it found it, whatever the storage
  layer does. When \<open>sales_transactions\<close> is not empty (and the count can be read), the
  answer is the message that reports the number of transactions there.
\<close>

theorem seed_leaves_database:
  "snd (seed_sample_data fl db) = db \<and>
   (sales_transactions db \<noteq> [] \<and> \<not> fl 0 \<longrightarrow>
      fst (seed_sample_data fl db) =
        Response \<lparr>message = ''Database already contains '' @
           str_int (int (length (sales_transactions db))) @ '' transactions''\<rparr>)"
  by (simp add: seed_sample_data_def storage_call_def sql_count_def)

theorem seed_witness:
  "seed_sample_data no_faults example_db =
     (Response \<lparr>message = ''Database already contains 3 transactions''\<rparr>, example_db)"
proof -
  have "sales_transactions example_db \<noteq> []"
    using length_example_sales by auto
  then show ?thesis
    using seed_leaves_database [of no_faults example_db]
    by (simp add: no_faults_def length_example_sales str_int_3 prod_eq_iff)
qed

end
